theory Spec2Isabelle
  imports Complex_Main "HOL-Library.List_Lexorder" "HOL-Library.Product_Lexorder"
    "HOL-Library.Sublist"
begin

section \<open>Triangulations of lattice point configurations (cytools/triangulation.py)\<close>

text \<open>
  A shallow embedding of the class \<open>Triangulation\<close> and of the module functions it uses.
  Python exceptions are values of \<open>py_error\<close>; a method that may raise returns
  \<open>py_error + 'a\<close> with \<open>Inl\<close> for the exception. A method that fills one of the
  object's caches takes the object and returns the result together with the updated object.
  The attribute \<open>self._x\<close> is the record field \<open>t_x\<close>.
\<close>

subsection \<open>Exceptions and sequencing\<close>

datatype py_error =
    ValueError | KeyError | IndexError | TypeError | AttributeError | OverflowError
  | NotImplementedError | RuntimeError | AssertionError
  | OutOfFuel  \<comment> \<open>not a Python exception: a loop of the model used up its bound\<close>

definition bind_err :: "py_error + 'a \<Rightarrow> ('a \<Rightarrow> py_error + 'b) \<Rightarrow> py_error + 'b" where
  "bind_err m f = (case m of Inl e \<Rightarrow> Inl e | Inr x \<Rightarrow> f x)"

subsection \<open>Python and numpy primitives\<close>

type_synonym point = "int list"
type_synonym simplex = "int list"

text \<open>\<open>xs.index(x)\<close>: position of the first occurrence, ValueError when there is none.\<close>

fun py_list_index :: "'a list \<Rightarrow> 'a \<Rightarrow> py_error + int" where
  "py_list_index [] x = Inl ValueError"
| "py_list_index (y # ys) x =
     (if y = x then Inr 0
      else (case py_list_index ys x of Inl e \<Rightarrow> Inl e | Inr i \<Rightarrow> Inr (i + 1)))"

text \<open>\<open>xs[i]\<close> with an integer \<open>i\<close>, for a list and for a one-dimensional array alike:
  \<open>i\<close> from \<open>-len(xs)\<close> to \<open>-1\<close> addresses the entry \<open>len(xs) + i\<close>, and an \<open>i\<close>
  beyond either end raises IndexError.\<close>

definition py_getitem :: "'a list \<Rightarrow> int \<Rightarrow> py_error + 'a" where
  "py_getitem xs i =
     (if 0 \<le> i \<and> i < int (length xs) then Inr (xs ! nat i)
      else if i < 0 \<and> - int (length xs) \<le> i then Inr (xs ! nat (int (length xs) + i))
      else Inl IndexError)"

text \<open>\<open>{pt: i for i, pt in enumerate(pts_tup)}\<close>: a later point overwrites an earlier
  equal one.\<close>

fun dict_enumerate :: "int \<Rightarrow> 'a list \<Rightarrow> ('a \<rightharpoonup> int) \<Rightarrow> ('a \<rightharpoonup> int)" where
  "dict_enumerate i [] m = m"
| "dict_enumerate i (x # xs) m = dict_enumerate (i + 1) xs (m(x \<mapsto> i))"

definition dict_getitem :: "('k \<rightharpoonup> 'v) \<Rightarrow> 'k \<Rightarrow> py_error + 'v" where
  "dict_getitem m k = (case m k of None \<Rightarrow> Inl KeyError | Some v \<Rightarrow> Inr v)"

text \<open>The value of \<open>points_to_indices\<close> on a single point: its index, or (for the
  point with no coordinates) the empty index array \<open>np.zeros(0, dtype=int)\<close>.\<close>

datatype index_result = Index int | EmptyIndexArray

text \<open>\<open>x in s\<close> for a one-dimensional array \<open>s\<close> is \<open>(s == x).any()\<close>. An integer is
  compared with every entry. The empty array is broadcast against \<open>s\<close>: when \<open>s\<close> has
  at most one entry the comparison has no entries and \<open>any\<close> is False; otherwise the
  shapes do not broadcast and the comparison fails.\<close>

fun np_contains :: "index_result \<Rightarrow> simplex \<Rightarrow> py_error + bool" where
  "np_contains (Index i) s = Inr (i \<in> set s)"
| "np_contains EmptyIndexArray s = (if length s \<le> 1 then Inr False else Inl ValueError)"

text \<open>\<open>all(x in s for s in simps)\<close>: stops at the first False, and at the first
  exception.\<close>

fun all_contain :: "index_result \<Rightarrow> simplex list \<Rightarrow> py_error + bool" where
  "all_contain x [] = Inr True"
| "all_contain x (s # ss) =
     (case np_contains x s of
        Inl e \<Rightarrow> Inl e
      | Inr b \<Rightarrow> if b then all_contain x ss else Inr False)"

text \<open>The entries of a numpy array of integers are signed 64-bit numbers. A Python
  integer outside their range cannot become an entry (OverflowError); sums, differences
  and products of entries wrap around and raise nothing.\<close>

definition int64_ok :: "int \<Rightarrow> bool" where
  "int64_ok x = (- (2 ^ 63) \<le> x \<and> x < 2 ^ 63)"

definition wrap64 :: "int \<Rightarrow> int" where
  "wrap64 x = (x + 2 ^ 63) mod 2 ^ 64 - 2 ^ 63"

subsection \<open>The ambient polytope\<close>

text \<open>
  The class \<open>Polytope\<close> is not part of this module: a polytope is the record of the
  answers its methods give. \<open>p_points\<close> is \<open>poly.points()\<close>, \<open>p_labels\<close> the label of
  each of these points, \<open>p_dim\<close> is \<open>poly.dim()\<close>, \<open>p_dim_ambient\<close> is
  \<open>poly._dim_ambient\<close>, \<open>p_facets_boundary_points\<close> lists \<open>f.boundary_points()\<close> for the
  facets \<open>f\<close>, \<open>p_faces_points\<close> lists, for each dimension \<open>d\<close> from 0, \<open>face.points()\<close>
  for the faces of dimension \<open>d\<close>, and \<open>p_automorphisms\<close> is
  \<open>poly.automorphisms(as_dictionary=True)\<close>, each dictionary as the list of its items.
  Two polytopes compare equal (\<open>==\<close>) when their records are equal.
\<close>

record polytope =
  p_points :: "point list"
  p_labels :: "int list"
  p_dim :: nat
  p_dim_ambient :: nat
  p_is_reflexive :: bool
  p_facets_boundary_points :: "point list list"
  p_faces_points :: "point list list list"
  p_automorphisms :: "(int \<times> int) list list"

text \<open>Modelled from the spec: \<open>Polytope.points(which=labels)\<close> is missing from the
  sources; the point configuration is drawn from the polytope's point list, restricted to
  the caller's labels, so the call gives, for each label, the point that carries it. A
  label that no point carries is an error of the polytope.\<close>

fun points_which :: "polytope \<Rightarrow> int list \<Rightarrow> py_error + point list" where
  "points_which poly [] = Inr []"
| "points_which poly (l # ls) =
     bind_err (py_list_index (p_labels poly) l) (\<lambda>i.
     bind_err (py_getitem (p_points poly) i) (\<lambda>pt.
     bind_err (points_which poly ls) (\<lambda>rest. Inr (pt # rest))))"

text \<open>Modelled from the spec: \<open>Polytope.points_to_indices(pt)\<close> is missing from the
  sources; it translates a point to its index in the polytope's point list.\<close>

fun poly_points_to_indices :: "polytope \<Rightarrow> point list \<Rightarrow> py_error + int list" where
  "poly_points_to_indices poly [] = Inr []"
| "poly_points_to_indices poly (pt # pts) =
     bind_err (py_list_index (p_points poly) pt) (\<lambda>i.
     bind_err (poly_points_to_indices poly pts) (\<lambda>rest. Inr (i # rest)))"

subsection \<open>The triangulation object\<close>

record triangulation =
  t_backend :: "string option"
  t_pt_labels :: "int list"
  t_poly :: polytope
  t_simplices :: "simplex list"
  t_pts :: "point list"
  t_ambient_dim :: nat
  t_dim :: int
  t_is_fulldim :: bool
  t_pts_optimal :: "point list"
  t_origin_index :: int
  t_pts_triang_to_poly :: "int list"
  t_heights :: "real list option"
  t_gkz_phi :: "int list option"
  t_hash :: "int option"
  t_is_fine :: "bool option"
  t_is_regular :: "bool option"
  t_is_star :: "bool option"
  t_is_valid :: "bool option"
  t_secondary_cone :: "int list list option \<times> int list list option"
  t_sr_ideal :: "int list list option"
  t_toricvariety :: "nat option"
  t_automorphism_orbit :: "((int list option \<times> int) \<times> simplex list list) list"
  t_restricted_simplices :: "(int \<times> int list list list) list"

text \<open>\<open>clear_cache()\<close> (without the recursive flag): every cached answer is forgotten.\<close>

definition clear_cache :: "triangulation \<Rightarrow> triangulation" where
  "clear_cache T = T\<lparr> t_gkz_phi := None, t_hash := None, t_is_fine := None,
     t_is_regular := None, t_is_star := None, t_is_valid := None,
     t_secondary_cone := (None, None), t_sr_ideal := None, t_toricvariety := None,
     t_automorphism_orbit := [], t_restricted_simplices := [] \<rparr>"

text \<open>\<open>self._pts_dict\<close> is built once from \<open>self._pts\<close> and never changed.\<close>

definition pts_dict :: "triangulation \<Rightarrow> (point \<rightharpoonup> int)" where
  "pts_dict T = dict_enumerate 0 (t_pts T) Map.empty"

definition dim :: "triangulation \<Rightarrow> int" where
  "dim T = t_dim T"

text \<open>\<open>points_to_indices(points)\<close> for a single point (a one-dimensional argument):
  the empty argument gives the empty index array, any other the dictionary entry or
  KeyError.\<close>

definition points_to_indices :: "triangulation \<Rightarrow> point \<Rightarrow> py_error + index_result" where
  "points_to_indices T pt =
     (if length pt = 0 then Inr EmptyIndexArray
      else bind_err (dict_getitem (pts_dict T) pt) (\<lambda>i. Inr (Index i)))"

text \<open>\<open>[0]*n\<close>: the empty list when \<open>n\<close> is not positive.\<close>

definition zeros :: "int \<Rightarrow> int list" where
  "zeros n = replicate (nat n) 0"

subsection \<open>is\_fine and is\_star\<close>

definition is_fine :: "triangulation \<Rightarrow> py_error + (bool \<times> triangulation)" where
  "is_fine T =
     (case t_is_fine T of
        Some b \<Rightarrow> Inr (b, T)
      | None \<Rightarrow>
          if t_simplices T = [] then Inl TypeError
          else (let N_used_pts = card (\<Union> (set ` set (t_simplices T)));
                    b = (N_used_pts = length (t_pts T))
                in Inr (b, T\<lparr>t_is_fine := Some b\<rparr>)))"

text \<open>\<open>is_star(star_origin)\<close> with the origin given: no cache is read or written.\<close>

definition is_star_at :: "triangulation \<Rightarrow> int \<Rightarrow> bool" where
  "is_star_at T star_origin = list_all (\<lambda>s. star_origin \<in> set s) (t_simplices T)"

text \<open>\<open>is_star()\<close>: the cached answer if there is one; otherwise the index of the point
  \<open>[0]*self.dim()\<close> is looked up and every simplex tested, and any exception on the way
  (the bare \<open>except\<close>) makes the answer False.\<close>

definition is_star :: "triangulation \<Rightarrow> bool \<times> triangulation" where
  "is_star T =
     (case t_is_star T of
        Some b \<Rightarrow> (b, T)
      | None \<Rightarrow>
          (let b = (case bind_err (points_to_indices T (zeros (dim T)))
                           (\<lambda>star_origin. all_contain star_origin (t_simplices T)) of
                      Inl e \<Rightarrow> False
                    | Inr r \<Rightarrow> r)
           in (b, T\<lparr>t_is_star := Some b\<rparr>)))"

subsection \<open>Equality and hashing\<close>

text \<open>\<open>simplices()\<close> without a face restriction returns a copy of the simplex array.\<close>

definition simplices :: "triangulation \<Rightarrow> simplex list" where
  "simplices T = t_simplices T"

definition polytope :: "triangulation \<Rightarrow> polytope" where
  "polytope T = t_poly T"

definition points :: "triangulation \<Rightarrow> point list" where
  "points T = t_pts T"

text \<open>\<open>__eq__\<close> for two triangulations (the \<open>isinstance\<close> test holds by typing); Python's
  \<open>sorted\<close> on lists of integers is the lexicographic order of \<open>sort\<close>.\<close>

definition dunder_eq :: "triangulation \<Rightarrow> triangulation \<Rightarrow> bool" where
  "dunder_eq self other =
     (let our_simps = sort (simplices self);
          other_simps = sort (simplices other)
      in polytope self = polytope other \<and> our_simps = other_simps)"

definition dunder_ne :: "triangulation \<Rightarrow> triangulation \<Rightarrow> bool" where
  "dunder_ne self other = (\<not> dunder_eq self other)"

text \<open>The hashable values \<open>__hash__\<close> builds, and the builtin \<open>hash\<close> as a parameter
  \<open>h\<close>.\<close>

datatype pyval = PyInt int | PyTuple "pyval list"

definition tuple_of :: "int list \<Rightarrow> pyval" where
  "tuple_of v = PyTuple (map PyInt v)"

text \<open>\<open>tuple(sorted(tuple(v) for v in self.points()))\<close>, the argument of the inner
  \<open>hash\<close>.\<close>

definition hash_points_key :: "triangulation \<Rightarrow> pyval" where
  "hash_points_key T = PyTuple (map tuple_of (sort (points T)))"

definition dunder_hash :: "(pyval \<Rightarrow> int) \<Rightarrow> triangulation \<Rightarrow> int \<times> triangulation" where
  "dunder_hash h T =
     (case t_hash T of
        Some v \<Rightarrow> (v, T)
      | None \<Rightarrow>
          (let pt_hash = h (hash_points_key T);
               simps = map tuple_of (sort (map sort (simplices T)));
               v = h (PyTuple (PyInt pt_hash # simps))
           in (v, T\<lparr>t_hash := Some v\<rparr>)))"

subsection \<open>External collaborators\<close>

text \<open>
  Library and subprocess calls are not part of this module; each is a field of the record
  \<open>externals\<close>, holding the answer the call gives:
  \<^item> \<open>x_matrix_rank\<close>: \<open>np.linalg.matrix_rank\<close>;
  \<^item> \<open>x_det_rounded\<close>: \<open>int(round(np.linalg.det(M)))\<close> for a square matrix \<open>M\<close> with
    at least one row: the determinant that LAPACK computes in 64-bit floating point,
    rounded to an integer, or the exception (\<open>round\<close> refuses an infinite value with
    OverflowError and an undefined one with ValueError);
  \<^item> \<open>x_lll_reduce\<close>: \<open>cytools.utils.lll_reduce\<close>;
  \<^item> \<open>x_random_normal k\<close>: the \<open>k\<close>-th draw of \<open>np.random.normal(0, 0.05)\<close>;
  \<^item> \<open>x_convex_hull\<close>: scipy's \<open>ConvexHull\<close> of the lifted points, as the list of
    \<open>(hull.simplices[n], hull.equations[n][-2])\<close>, or the exception it raises;
  \<^item> \<open>x_cgal\<close>: the CGAL subprocess: whether its standard error is non-empty, and its
    standard output parsed by \<open>ast.literal_eval\<close> (None when parsing fails);
  \<^item> \<open>x_topcom_finetriang\<close>: \<open>topcom-points2finetriang\<close>, its output parsed (None when
    parsing fails);
  \<^item> \<open>x_topcom_flips\<close>: \<open>topcom-points2flips\<close> on the points and the simplices: None
    when the exit code is not zero, the exception of \<open>ast.literal_eval\<close> when a line does
    not parse, else the parsed lines (no line when the output is empty);
  \<^item> \<open>x_nullspace\<close>: the first basis vector of \<open>flint.fmpz_mat(m).nullspace()\<close>;
  \<^item> \<open>x_cone_is_solid\<close>: \<open>Cone.is_solid\<close> of the cone with the given hyperplanes;
  \<^item> \<open>x_cone_find_interior_point\<close>: \<open>Cone.find_interior_point\<close> (None when there is
    none);
  \<^item> \<open>x_intersection_is_solid\<close>: \<open>Cone(r1).intersection(Cone(r2)).is_solid()\<close> for two
    cones given by rays;
  \<^item> \<open>x_hull_volume_scaled pts d\<close>:
    \<open>int(round(ConvexHull(pts).volume * math.factorial(d)))\<close>, or the exception of QHull;
  \<^item> \<open>x_near_wall C hs\<close>: \<open>(np.matmul(C, hs) < 1e-6).any()\<close>, in floating point, or the
    exception of \<open>matmul\<close>;
  \<^item> \<open>x_toric_variety\<close>: the constructor \<open>ToricVariety(self)\<close>: an opaque handle, or
    the exception the constructor raises;
  \<^item> \<open>x_iter_ints\<close>, \<open>x_iter_sets\<close>, \<open>x_iter_triangs\<close>: the order in which Python
    iterates over a set (or frozenset) of integers, of frozensets or tuples of integers, and
    of tuples of such tuples. The language leaves the order open; the set is given by the
    sorted list of its elements, and the order is taken to depend on the elements only.
  A cone built from hyperplanes is the list of its hyperplanes.
\<close>

record externals =
  x_matrix_rank :: "int list list \<Rightarrow> nat"
  x_det_rounded :: "int list list \<Rightarrow> py_error + int"
  x_lll_reduce :: "int list list \<Rightarrow> int list list"
  x_random_normal :: "nat \<Rightarrow> real"
  x_convex_hull :: "real list list \<Rightarrow> py_error + (int list \<times> real) list"
  x_cgal :: "point list \<Rightarrow> real list \<Rightarrow> bool \<times> simplex list option"
  x_topcom_finetriang :: "int list list \<Rightarrow> simplex list option"
  x_topcom_flips :: "int list list \<Rightarrow> simplex list \<Rightarrow> py_error + simplex list list option"
  x_nullspace :: "int list list \<Rightarrow> int list"
  x_cone_is_solid :: "int list list \<Rightarrow> bool"
  x_cone_find_interior_point :: "int list list \<Rightarrow> real list option"
  x_intersection_is_solid :: "int list list \<Rightarrow> int list list \<Rightarrow> bool"
  x_hull_volume_scaled :: "point list \<Rightarrow> int \<Rightarrow> py_error + int"
  x_near_wall :: "int list list \<Rightarrow> real list \<Rightarrow> py_error + bool"
  x_toric_variety :: "triangulation \<Rightarrow> py_error + nat"
  x_iter_ints :: "int list \<Rightarrow> int list"
  x_iter_sets :: "int list list \<Rightarrow> int list list"
  x_iter_triangs :: "simplex list list \<Rightarrow> simplex list list"

subsection \<open>The GKZ vector\<close>

text \<open>\<open>int(round(np.linalg.det(M)))\<close>: numpy refuses a matrix that is empty or not
  square with \<open>LinAlgError\<close>, a subclass of ValueError; otherwise the value is the
  rounded floating-point determinant, which is the answer of an external call.\<close>

definition np_linalg_det :: "externals \<Rightarrow> int list list \<Rightarrow> py_error + int" where
  "np_linalg_det X M =
     (if M = [] \<or> (\<exists>r \<in> set M. length r \<noteq> length M) then Inl ValueError
      else x_det_rounded X M)"

text \<open>\<open>[list(pt)+[1,] for pt in self._pts_optimal]\<close>\<close>

definition pts_ext :: "triangulation \<Rightarrow> int list list" where
  "pts_ext T = map (\<lambda>pt. pt @ [1]) (t_pts_optimal T)"

text \<open>\<open>[rows[i] for i in s]\<close>\<close>

fun rows_at :: "'a list \<Rightarrow> int list \<Rightarrow> py_error + 'a list" where
  "rows_at rows [] = Inr []"
| "rows_at rows (i # is) =
     bind_err (py_getitem rows i) (\<lambda>r. bind_err (rows_at rows is) (\<lambda>rs. Inr (r # rs)))"

text \<open>\<open>int(round(abs(np.linalg.det([pts_ext[i] for i in s]))))\<close>, and the same value
  \<open>abs(int(round(np.linalg.det([pts_ext[i] for i in s]))))\<close> of \<open>is_valid\<close>: rounding
  commutes with the absolute value.\<close>

definition simp_vol :: "externals \<Rightarrow> int list list \<Rightarrow> simplex \<Rightarrow> py_error + int" where
  "simp_vol X ext s =
     bind_err (rows_at ext s) (\<lambda>M. bind_err (np_linalg_det X M) (\<lambda>d. Inr \<bar>d\<bar>))"

text \<open>\<open>for i in s: phi[i] += simp_vol\<close> on the integer array \<open>phi\<close>: the entry is read,
  a volume that is no 64-bit number is refused, and the sum wraps around.\<close>

fun phi_add :: "int list \<Rightarrow> simplex \<Rightarrow> int \<Rightarrow> py_error + int list" where
  "phi_add phi [] v = Inr phi"
| "phi_add phi (i # is) v =
     bind_err (py_getitem phi i)
       (\<lambda>x. if \<not> int64_ok v then Inl OverflowError
            else phi_add (phi[nat (if i < 0 then int (length phi) + i else i) := wrap64 (x + v)])
                   is v)"

fun gkz_loop ::
  "externals \<Rightarrow> int list list \<Rightarrow> int list \<Rightarrow> simplex list \<Rightarrow> py_error + int list" where
  "gkz_loop X ext phi [] = Inr phi"
| "gkz_loop X ext phi (s # ss) =
     bind_err (simp_vol X ext s)
       (\<lambda>v. bind_err (phi_add phi s v) (\<lambda>phi'. gkz_loop X ext phi' ss))"

definition gkz_phi :: "externals \<Rightarrow> triangulation \<Rightarrow> py_error + (int list \<times> triangulation)" where
  "gkz_phi X T =
     (case t_gkz_phi T of
        Some phi \<Rightarrow> Inr (phi, T)
      | None \<Rightarrow>
          bind_err (gkz_loop X (pts_ext T) (replicate (length (pts_ext T)) 0) (t_simplices T))
            (\<lambda>phi. Inr (phi, T\<lparr>t_gkz_phi := Some phi\<rparr>)))"

subsection \<open>Module functions: star-ification and the three back-ends\<close>

text \<open>\<open>np.array(sorted([sorted(s) for s in simp]))\<close>: rows of different lengths make numpy
  raise ValueError.\<close>

definition ragged :: "'a list list \<Rightarrow> bool" where
  "ragged rows = (\<exists>r \<in> set rows. length r \<noteq> length (hd rows))"

definition sorted_simplices :: "simplex list \<Rightarrow> py_error + simplex list" where
  "sorted_simplices simp =
     (let ss = sort (map sort simp) in if ragged ss then Inl ValueError else Inr ss)"

text \<open>\<open>np.asarray(sorted([sorted(s) for s in simplices]), dtype=int)\<close>, the conversion of
  the user's simplices: with the type given, an entry that is no 64-bit number raises
  OverflowError.\<close>

definition asarray_int :: "simplex list \<Rightarrow> py_error + simplex list" where
  "asarray_int simp =
     bind_err (sorted_simplices simp) (\<lambda>ss.
       if list_ex (list_ex (\<lambda>x. \<not> int64_ok x)) ss then Inl OverflowError else Inr ss)"

text \<open>\<open>[d[k] for k in ks]\<close> on a dictionary.\<close>

fun dict_getitems :: "('k \<rightharpoonup> 'v) \<Rightarrow> 'k list \<Rightarrow> py_error + 'v list" where
  "dict_getitems m [] = Inr []"
| "dict_getitems m (k # ks) =
     bind_err (dict_getitem m k) (\<lambda>v. bind_err (dict_getitems m ks) (\<lambda>vs. Inr (v # vs)))"

fun facets_indices :: "(point \<rightharpoonup> int) \<Rightarrow> point list list \<Rightarrow> py_error + int list list" where
  "facets_indices m [] = Inr []"
| "facets_indices m (f # fs) =
     bind_err (dict_getitems m f) (\<lambda>x. bind_err (facets_indices m fs) (\<lambda>xs. Inr (x # xs)))"

text \<open>\<open>_to_star(triang)\<close>: for each facet and each simplex, the vertices of the simplex on
  the facet (\<open>simp[np.isin(simp, facet)]\<close>), joined to the origin when there are exactly
  \<open>dim\<close> of them.\<close>

definition to_star :: "triangulation \<Rightarrow> py_error + triangulation" where
  "to_star triang =
     (if \<not> p_is_reflexive (t_poly triang) then Inl AssertionError
      else bind_err (facets_indices (pts_dict triang) (p_facets_boundary_points (t_poly triang)))
        (\<lambda>facets.
           case t_simplices triang of
             [] \<Rightarrow> Inl IndexError
           | s0 # _ \<Rightarrow>
               (let d = int (length s0) - 1;
                    star_triang = concat (map (\<lambda>facet.
                       concat (map (\<lambda>simp.
                         (let overlap = filter (\<lambda>i. i \<in> set facet) simp
                          in if int (length overlap) = d
                             then [t_origin_index triang # overlap] else []))
                         (t_simplices triang))) facets)
                in bind_err (sorted_simplices star_triang)
                     (\<lambda>ss. Inr (triang\<lparr>t_simplices := ss\<rparr>)))))"

text \<open>\<open>_qhull_triangulate(points, heights)\<close>: the lower facets of the hull of the lifted
  points whose projection has a non-zero determinant.\<close>

fun lift_points :: "point list \<Rightarrow> real list \<Rightarrow> py_error + real list list" where
  "lift_points [] hs = Inr []"
| "lift_points (p # ps) [] = Inl IndexError"
| "lift_points (p # ps) (h # hs) =
     bind_err (lift_points ps hs) (\<lambda>rest. Inr ((map real_of_int p @ [h]) # rest))"

fun nonzero_det_facets ::
  "externals \<Rightarrow> int list list \<Rightarrow> simplex list \<Rightarrow> py_error + simplex list" where
  "nonzero_det_facets X ext [] = Inr []"
| "nonzero_det_facets X ext (s # ss) =
     bind_err (rows_at ext s) (\<lambda>M. bind_err (np_linalg_det X M) (\<lambda>d.
       bind_err (nonzero_det_facets X ext ss)
         (\<lambda>rest. Inr (if d \<noteq> 0 then s # rest else rest))))"

definition qhull_triangulate ::
  "externals \<Rightarrow> point list \<Rightarrow> real list \<Rightarrow> py_error + simplex list" where
  "qhull_triangulate X pts hs =
     bind_err (lift_points pts hs) (\<lambda>lifted_points.
     bind_err (x_convex_hull X lifted_points) (\<lambda>hull_facets.
       (let low_fac = map fst (filter (\<lambda>(s, nn). nn < 0) hull_facets)
        in bind_err (nonzero_det_facets X (map (\<lambda>pt. pt @ [1]) pts) low_fac)
             sorted_simplices)))"

text \<open>\<open>_cgal_triangulate(points, heights)\<close>\<close>

definition cgal_triangulate ::
  "externals \<Rightarrow> point list \<Rightarrow> real list \<Rightarrow> py_error + simplex list" where
  "cgal_triangulate X pts hs =
     (case x_cgal X pts hs of
        (cgal_err, cgal_res) \<Rightarrow>
          if cgal_err then Inl RuntimeError
          else (case cgal_res of
                  None \<Rightarrow> Inl RuntimeError
                | Some simp \<Rightarrow> sorted_simplices simp))"

text \<open>\<open>_topcom_triangulate(points)\<close>\<close>

definition topcom_triangulate :: "externals \<Rightarrow> point list \<Rightarrow> py_error + simplex list" where
  "topcom_triangulate X pts =
     (case x_topcom_finetriang X (map (\<lambda>pt. pt @ [1]) pts) of
        None \<Rightarrow> Inl RuntimeError
      | Some simp \<Rightarrow> sorted_simplices simp)"

subsection \<open>The constructor\<close>

text \<open>\<open>str.lower()\<close> on ASCII letters.\<close>

definition lower_char :: "char \<Rightarrow> char" where
  "lower_char c = (let n = (of_char c :: nat) in if 65 \<le> n \<and> n \<le> 90 then char_of (n + 32) else c)"

definition lower :: "string \<Rightarrow> string" where
  "lower b = map lower_char b"

text \<open>
  \<open>__init__(poly, pts, heights, make_star, simplices, check_input_simplices,
  check_heights, backend)\<close>, in the order of the source; \<open>verbosity\<close> only selects what is
  printed and is left out. The sections of the source are separate definitions.

  Grab inputs: \<open>backend.lower()\<close> has no meaning for \<open>None\<close> (AttributeError); the set
  \<open>tmp_pts\<close> of the selected points is a duplicate-free list; the user's simplices are
  sorted and turned into an array.
\<close>

definition init_grab_inputs ::
  "polytope \<Rightarrow> int list \<Rightarrow> simplex list option \<Rightarrow> string option
   \<Rightarrow> py_error + (string \<times> point list \<times> simplex list option)" where
  "init_grab_inputs poly pts simplices_in backend =
     (case backend of
        None \<Rightarrow> Inl AttributeError
      | Some b \<Rightarrow>
          (let backend = lower b in
           if backend \<notin> {''qhull'', ''cgal'', ''topcom''} then Inl ValueError
           else bind_err (points_which poly pts) (\<lambda>selected.
                  (let tmp_pts = remdups selected in
                   if length tmp_pts = 0 then Inl ValueError
                   else (case simplices_in of
                           None \<Rightarrow> Inr (backend, tmp_pts, None)
                         | Some simp \<Rightarrow>
                             bind_err (asarray_int simp)
                               (\<lambda>ss. Inr (backend, tmp_pts, Some ss)))))))"

text \<open>\<open>r[-d:]\<close> for a list \<open>r\<close>: a negative start counts from the end and is clipped.\<close>

definition slice_from :: "int \<Rightarrow> 'a list \<Rightarrow> 'a list" where
  "slice_from start r =
     (let n = int (length r);
          k = (if start < 0 then max 0 (n + start) else min start n)
      in drop (nat k) r)"

text \<open>Parse points: the points in the polytope's order, the dimensions, the optimal
  coordinates, the index of the origin (which switches \<open>make_star\<close> off when there is
  none), the two index maps; all caches empty, as \<open>clear_cache()\<close> left them.\<close>

definition init_parse_points ::
  "externals \<Rightarrow> polytope \<Rightarrow> int list \<Rightarrow> string \<Rightarrow> point list \<Rightarrow> bool
   \<Rightarrow> py_error + (triangulation \<times> bool)" where
  "init_parse_points X poly pts backend tmp_pts make_star =
     (let poly_pts = p_points poly;
          the_pts = filter (\<lambda>pt. pt \<in> set tmp_pts) poly_pts;
          pts_tup = the_pts;
          ambient_dim = length (hd tmp_pts);
          d = int (x_matrix_rank X (map (\<lambda>pt. pt @ [1]) tmp_pts)) - 1;
          is_fulldim = (d = int ambient_dim)
      in bind_err
           (if is_fulldim then Inr the_pts
            else (case the_pts of
                    [] \<Rightarrow> Inl IndexError
                  | p0 # _ \<Rightarrow>
                      Inr (map (slice_from (- d))
                             (x_lll_reduce X
                                (map (\<lambda>pt. map2 (\<lambda>a b. wrap64 (a - b)) pt p0) the_pts)))))
           (\<lambda>pts_optimal.
            bind_err (poly_points_to_indices poly the_pts) (\<lambda>triang_to_poly.
              (let (origin_index, make_star) =
                     (case py_list_index pts_tup (replicate (p_dim poly) 0) of
                        Inr i \<Rightarrow> (i, make_star)
                      | Inl e \<Rightarrow> (- 1, False))
               in Inr (\<lparr> t_backend = Some backend, t_pt_labels = pts, t_poly = poly,
                          t_simplices = [], t_pts = the_pts, t_ambient_dim = ambient_dim,
                          t_dim = d, t_is_fulldim = is_fulldim, t_pts_optimal = pts_optimal,
                          t_origin_index = origin_index,
                          t_pts_triang_to_poly = triang_to_poly,
                          t_heights = None, t_gkz_phi = None, t_hash = None, t_is_fine = None,
                          t_is_regular = None, t_is_star = None, t_is_valid = None,
                          t_secondary_cone = (None, None), t_sr_ideal = None,
                          t_toricvariety = None, t_automorphism_orbit = [],
                          t_restricted_simplices = [] \<rparr>, make_star)))))"

text \<open>The user's simplices: the dimension check reads \<open>shape[1]\<close>, which an array without
  rows does not have (IndexError); the index checks, star-ification and the validity check
  follow. The method \<open>is_valid\<close> is the parameter \<open>is_valid_m\<close>.\<close>

definition init_from_simplices ::
  "(triangulation \<Rightarrow> py_error + (bool \<times> triangulation)) \<Rightarrow> triangulation \<Rightarrow> simplex list
   \<Rightarrow> bool \<Rightarrow> bool \<Rightarrow> py_error + triangulation" where
  "init_from_simplices is_valid_m T0 ss make_star check_input_simplices =
     (let T = T0\<lparr>t_simplices := ss, t_heights := None\<rparr> in
      if ss = [] then Inl IndexError
      else if int (length (hd ss)) \<noteq> t_dim T + 1 then Inl ValueError
      else bind_err
        (if check_input_simplices then
           (let simp_inds = concat ss in
            if simp_inds = [] then Inl ValueError
            else if Min (set simp_inds) < 0 then Inl ValueError
            else if Max (set simp_inds) \<ge> int (length (points T)) then Inl ValueError
            else Inr ())
         else Inr ())
        (\<lambda>_. bind_err (if make_star then to_star T else Inr T)
          (\<lambda>T. if check_input_simplices then
                   bind_err (is_valid_m T)
                     (\<lambda>(valid, T). if \<not> valid then Inl ValueError else Inr T)
                 else Inr T)))"

text \<open>The loop of the CGAL back-end that lowers the height of the origin until the first
  column of the simplex array is zero; the first argument bounds the number of rounds.\<close>

fun cgal_star_loop ::
  "nat \<Rightarrow> externals \<Rightarrow> point list \<Rightarrow> real list \<Rightarrow> real \<Rightarrow> simplex list
   \<Rightarrow> py_error + (real list \<times> simplex list)" where
  "cgal_star_loop fuel X pts hs origin_step simps =
     (if simps = [] \<or> hd simps = [] then Inl IndexError
      else if \<not> list_ex (\<lambda>s. hd s \<noteq> 0) simps then Inr (hs, simps)
      else (case fuel of
              0 \<Rightarrow> Inl OutOfFuel
            | Suc n \<Rightarrow>
                (case hs of
                   [] \<Rightarrow> Inl IndexError
                 | h0 # hrest \<Rightarrow>
                     bind_err (cgal_triangulate X pts ((h0 - origin_step) # hrest))
                       (\<lambda>simps'. cgal_star_loop n X pts ((h0 - origin_step) # hrest)
                                   origin_step simps'))))"

text \<open>\<open>np.dot(p, p)\<close> on a row of the integer array of points.\<close>

definition dot_self :: "point \<Rightarrow> int" where
  "dot_self p = wrap64 (sum_list (map (\<lambda>x. x * x) p))"

text \<open>No simplices given. First the heights: the default ones of the back-end, or the
  user's, whose number must be the number of labels.\<close>

definition init_heights ::
  "externals \<Rightarrow> triangulation \<Rightarrow> string \<Rightarrow> int list \<Rightarrow> real list option
   \<Rightarrow> py_error + real list option" where
  "init_heights X T backend pts heights =
     (case heights of
        None \<Rightarrow>
          (if backend = ''qhull'' then
             Inr (Some (map (\<lambda>(k, p). real_of_int (dot_self p) + x_random_normal X k)
                          (enumerate 0 (t_pts T))))
           else if backend = ''cgal'' then
             Inr (Some (map (\<lambda>p. real_of_int (dot_self p)) (t_pts T)))
           else Inr None)
      | Some hs \<Rightarrow>
          if length hs \<noteq> length pts then Inl ValueError else Inr (Some hs))"

text \<open>Then the triangulation function of the back-end and, when asked, the conversion to
  a star triangulation. QHull and CGAL are only reached with heights (a missing height
  vector would be a TypeError in their functions).\<close>

definition init_run_backend ::
  "externals \<Rightarrow> nat \<Rightarrow> triangulation \<Rightarrow> string \<Rightarrow> bool \<Rightarrow> py_error + triangulation" where
  "init_run_backend X fuel T backend make_star =
     (if backend = ''qhull'' then
        (case t_heights T of
           None \<Rightarrow> Inl TypeError
         | Some hs \<Rightarrow>
             bind_err (qhull_triangulate X (t_pts_optimal T) hs)
               (\<lambda>ss. if make_star then to_star (T\<lparr>t_simplices := ss\<rparr>)
                     else Inr (T\<lparr>t_simplices := ss\<rparr>)))
      else if backend = ''cgal'' then
        (case t_heights T of
           None \<Rightarrow> Inl TypeError
         | Some hs \<Rightarrow>
             bind_err (cgal_triangulate X (t_pts_optimal T) hs)
               (\<lambda>ss. if make_star then
                       (if t_origin_index T \<noteq> 0 then Inl AssertionError
                        else if tl hs = [] then Inl ValueError
                        else bind_err
                               (cgal_star_loop fuel X (t_pts_optimal T) hs
                                  (max 100 (Max (set (tl hs)) - Min (set (tl hs)))) ss)
                               (\<lambda>(hs', ss'). Inr (T\<lparr>t_heights := Some hs',
                                                    t_simplices := ss'\<rparr>)))
                     else Inr (T\<lparr>t_simplices := ss\<rparr>)))
      else
        bind_err (topcom_triangulate X (t_pts_optimal T))
          (\<lambda>ss. if make_star then to_star (T\<lparr>t_simplices := ss\<rparr>)
                else Inr (T\<lparr>t_simplices := ss\<rparr>)))"

text \<open>The whole branch: the triangulation is presumed valid, and regular unless QHull
  built it; at the end the heights are checked. The method \<open>check_heights\<close> is the
  parameter \<open>check_heights_m\<close>.\<close>

definition init_from_heights ::
  "externals \<Rightarrow> (triangulation \<Rightarrow> py_error + triangulation) \<Rightarrow> nat \<Rightarrow> triangulation
   \<Rightarrow> string \<Rightarrow> int list \<Rightarrow> real list option \<Rightarrow> bool \<Rightarrow> bool \<Rightarrow> py_error + triangulation" where
  "init_from_heights X check_heights_m fuel T0 backend pts heights make_star check_heights =
     (let T = T0\<lparr>t_is_regular := (if backend = ''qhull'' then None else Some True),
                   t_is_valid := Some True\<rparr>
      in bind_err (init_heights X T backend pts heights) (\<lambda>heights.
         bind_err (init_run_backend X fuel (T\<lparr>t_heights := heights\<rparr>) backend make_star)
           (\<lambda>T. if check_heights \<and> t_heights T \<noteq> None then check_heights_m T
                 else Inr T)))"

text \<open>The whole constructor; its last statement sorts the simplices once more.\<close>

definition init_with ::
  "externals \<Rightarrow> (triangulation \<Rightarrow> py_error + (bool \<times> triangulation))
   \<Rightarrow> (triangulation \<Rightarrow> py_error + triangulation) \<Rightarrow> nat
   \<Rightarrow> polytope \<Rightarrow> int list \<Rightarrow> real list option \<Rightarrow> bool \<Rightarrow> simplex list option
   \<Rightarrow> bool \<Rightarrow> bool \<Rightarrow> string option \<Rightarrow> py_error + triangulation" where
  "init_with X is_valid_m check_heights_m fuel poly pts heights make_star simplices_in
       check_input_simplices check_heights backend =
     bind_err (init_grab_inputs poly pts simplices_in backend)
       (\<lambda>(backend, tmp_pts, simplices_in).
     bind_err (init_parse_points X poly pts backend tmp_pts make_star)
       (\<lambda>(T0, make_star).
     bind_err
       (case simplices_in of
          Some ss \<Rightarrow> init_from_simplices is_valid_m T0 ss make_star check_input_simplices
        | None \<Rightarrow> init_from_heights X check_heights_m fuel T0 backend pts heights make_star
                    check_heights)
       (\<lambda>T. bind_err (sorted_simplices (t_simplices T))
              (\<lambda>ss. Inr (T\<lparr>t_simplices := ss\<rparr>)))))"

text \<open>A triangulation object built from given simplices without checks, as
  \<open>Triangulation(poly, pts, simplices=t, check_input_simplices=False)\<close> does: the other
  arguments have their defaults, and neither \<open>is_valid\<close> nor \<open>check_heights\<close> is
  reached.\<close>

definition init_unchecked ::
  "externals \<Rightarrow> polytope \<Rightarrow> int list \<Rightarrow> simplex list \<Rightarrow> py_error + triangulation" where
  "init_unchecked X poly pts t =
     init_with X (\<lambda>T. Inr (True, T)) (\<lambda>T. Inr T) 0 poly pts None False (Some t) False True
       (Some ''cgal'')"

subsection \<open>The secondary cone and regularity\<close>

text \<open>A Python set (or frozenset) of integers is represented by the sorted list of its
  elements, without duplicates. A loop over the set, or \<open>list\<close> of it, visits the
  elements in the order \<open>x_iter_ints\<close> of the externals, not in this one.\<close>

definition py_set :: "int list \<Rightarrow> int list" where
  "py_set s = sort (remdups s)"

definition set_inter :: "int list \<Rightarrow> int list \<Rightarrow> int list" where
  "set_inter a b = filter (\<lambda>x. x \<in> set b) a"

definition set_minus :: "int list \<Rightarrow> int list \<Rightarrow> int list" where
  "set_minus a b = filter (\<lambda>x. x \<notin> set b) a"

definition set_union :: "int list \<Rightarrow> int list \<Rightarrow> int list" where
  "set_union a b = py_set (a @ b)"

definition set_symdiff :: "int list \<Rightarrow> int list \<Rightarrow> int list" where
  "set_symdiff a b = py_set (set_minus a b @ set_minus b a)"

text \<open>\<open>m[:, j] = col\<close> on a two-dimensional array: the column must exist and the value
  must have one entry per row.\<close>

definition set_col :: "int list list \<Rightarrow> int \<Rightarrow> int list \<Rightarrow> py_error + int list list" where
  "set_col m j col =
     (let ncols = (if m = [] then 0 else int (length (hd m)));
          k = (if j < 0 then ncols + j else j)
      in if k < 0 \<or> ncols \<le> k then Inl IndexError
         else if length col \<noteq> length m then Inl ValueError
         else Inr (map2 (\<lambda>row x. row[nat k := x]) m col))"

text \<open>\<open>for j, pt in enumerate(pts): m[:, j + off] = pts_ext[pt]\<close>\<close>

fun set_cols ::
  "int list list \<Rightarrow> int list list \<Rightarrow> int \<Rightarrow> int list \<Rightarrow> py_error + int list list" where
  "set_cols ext m j [] = Inr m"
| "set_cols ext m j (pt # pts) =
     bind_err (py_getitem ext pt) (\<lambda>col. bind_err (set_col m j col)
       (\<lambda>m'. set_cols ext m' (j + 1) pts))"

text \<open>\<open>a[i] = x\<close> on a one-dimensional array.\<close>

definition py_setitem :: "'a list \<Rightarrow> int \<Rightarrow> 'a \<Rightarrow> py_error + 'a list" where
  "py_setitem xs i x =
     (if 0 \<le> i \<and> i < int (length xs) then Inr (xs[nat i := x])
      else if i < 0 \<and> - int (length xs) \<le> i then Inr (xs[nat (int (length xs) + i) := x])
      else Inl IndexError)"

text \<open>\<open>for i, pt in enumerate(pts): full_v[pt] = v[i + off]\<close>\<close>

fun scatter :: "int list \<Rightarrow> int list \<Rightarrow> int \<Rightarrow> int list \<Rightarrow> py_error + int list" where
  "scatter full_v v i [] = Inr full_v"
| "scatter full_v v i (pt # pts) =
     bind_err (py_getitem v i) (\<lambda>x. bind_err (py_setitem full_v pt x)
       (\<lambda>full_v'. scatter full_v' v (i + 1) pts))"

text \<open>\<open>for i, pt in enumerate(pts): full_v[pt] = 0\<close>\<close>

fun unscatter :: "int list \<Rightarrow> int list \<Rightarrow> py_error + int list" where
  "unscatter full_v [] = Inr full_v"
| "unscatter full_v (pt # pts) =
     bind_err (py_setitem full_v pt 0) (\<lambda>full_v'. unscatter full_v' pts)"

text \<open>\<open>gcd_list\<close> of cytools.utils: the greatest common divisor of the entries.\<close>

definition gcd_list :: "int list \<Rightarrow> int" where
  "gcd_list v = fold gcd v 0"

text \<open>The state of the two nested loops of the native computation: the matrix \<open>m\<close>, the
  scratch vector \<open>full_v\<close> and the set \<open>null_vecs\<close> (in insertion order).\<close>

type_synonym cone_state = "int list list \<times> int list \<times> int list list"

text \<open>The nullspace vector becomes an integer array (\<open>np.array(..., dtype=int)\<close>), then
  sign and gcd are normalised: \<open>v *= -1\<close> when \<open>v[0] < 0\<close>, then \<open>v //= g\<close> when the
  gcd \<open>g\<close> is not one.\<close>

definition normalise_v :: "int list \<Rightarrow> py_error + int list" where
  "normalise_v v =
     (if list_ex (\<lambda>x. \<not> int64_ok x) v then Inl OverflowError
      else bind_err (py_getitem v 0) (\<lambda>v0.
        (let v1 = (if v0 < 0 then map (\<lambda>x. wrap64 (x * (- 1))) v else v);
             g = gcd_list v1
         in Inr (if g \<noteq> 1 then map (\<lambda>x. x div g) v1 else v1))))"

text \<open>\<open>if self.is_star(): full_v[star_origin] = v[-1]\<close>\<close>

definition set_star_entry :: "int option \<Rightarrow> int list \<Rightarrow> int list \<Rightarrow> py_error + int list" where
  "set_star_entry star_origin v full_v =
     (case star_origin of
        None \<Rightarrow> Inr full_v
      | Some so \<Rightarrow> bind_err (py_getitem v (- 1)) (\<lambda>x. py_setitem full_v so x))"

text \<open>The three assignments that write \<open>v\<close> into \<open>full_v\<close>, and the three after
  \<open>null_vecs.add\<close> (the last of which writes \<open>v[-1]\<close> again, as the source does).\<close>

definition fill_full_v ::
  "int option \<Rightarrow> int list \<Rightarrow> int list \<Rightarrow> int list \<Rightarrow> int list \<Rightarrow> py_error + int list" where
  "fill_full_v star_origin v diff_pts comm_pts full_v =
     bind_err (scatter full_v v 0 diff_pts) (\<lambda>f1.
     bind_err (scatter f1 v 2 comm_pts) (\<lambda>f2. set_star_entry star_origin v f2))"

definition clear_full_v ::
  "int option \<Rightarrow> int list \<Rightarrow> int list \<Rightarrow> int list \<Rightarrow> int list \<Rightarrow> py_error + int list" where
  "clear_full_v star_origin v diff_pts comm_pts full_v =
     bind_err (unscatter full_v diff_pts) (\<lambda>f1.
     bind_err (unscatter f1 comm_pts) (\<lambda>f2. set_star_entry star_origin v f2))"

text \<open>The body of the inner loop for one pair of simplices.\<close>

definition cone_pair ::
  "externals \<Rightarrow> int list list \<Rightarrow> int \<Rightarrow> int option \<Rightarrow> int list \<Rightarrow> int list \<Rightarrow> cone_state
   \<Rightarrow> py_error + cone_state" where
  "cone_pair X ext d star_origin s1 s2 st =
     (case st of (m, full_v, null_vecs) \<Rightarrow>
        (let comm = set_inter s1 s2 in
         if int (length comm) \<noteq> d then Inr st
         else (let diff_pts = x_iter_ints X (set_symdiff s1 s2);
                   comm_pts = x_iter_ints X comm in
           bind_err (set_cols ext m 0 diff_pts) (\<lambda>m1.
           bind_err (set_cols ext m1 2 comm_pts) (\<lambda>m2.
           bind_err (normalise_v (x_nullspace X m2)) (\<lambda>v.
           bind_err (fill_full_v star_origin v diff_pts comm_pts full_v) (\<lambda>full_v1.
           bind_err (clear_full_v star_origin v diff_pts comm_pts full_v1) (\<lambda>full_v2.
             Inr (m2, full_v2,
                  (if full_v1 \<in> set null_vecs then null_vecs else null_vecs @ [full_v1]))))))))))"

fun cone_inner ::
  "externals \<Rightarrow> int list list \<Rightarrow> int \<Rightarrow> int option \<Rightarrow> int list \<Rightarrow> int list list
   \<Rightarrow> cone_state \<Rightarrow> py_error + cone_state" where
  "cone_inner X ext d so s1 [] st = Inr st"
| "cone_inner X ext d so s1 (s2 # rest) st =
     bind_err (cone_pair X ext d so s1 s2 st) (cone_inner X ext d so s1 rest)"

fun cone_outer ::
  "externals \<Rightarrow> int list list \<Rightarrow> int \<Rightarrow> int option \<Rightarrow> int list list \<Rightarrow> cone_state
   \<Rightarrow> py_error + cone_state" where
  "cone_outer X ext d so [] st = Inr st"
| "cone_outer X ext d so (s1 # rest) st =
     bind_err (cone_inner X ext d so s1 rest st) (cone_outer X ext d so rest)"

text \<open>The native computation of the hyperplanes, given the answer \<open>star\<close> of
  \<open>is_star()\<close>. \<open>np.zeros\<close> refuses a negative dimension; \<open>set(s) - {star_origin}\<close>
  cannot hold the (unhashable) empty index array. At the end \<open>list(null_vecs)\<close> lists the
  set of vectors in Python's order.\<close>

definition native_hyperplanes ::
  "externals \<Rightarrow> triangulation \<Rightarrow> bool \<Rightarrow> py_error + int list list" where
  "native_hyperplanes X T star =
     (let ext = pts_ext T in
      if dim T + 1 < 0 then Inl ValueError
      else (let m = replicate (nat (dim T + 1)) (replicate (nat (dim T + 2)) 0);
                full_v = replicate (length ext) 0
            in bind_err
                (if star then
                   bind_err (points_to_indices T (zeros (dim T))) (\<lambda>r.
                     case r of
                       EmptyIndexArray \<Rightarrow> Inl TypeError
                     | Index star_origin \<Rightarrow>
                         bind_err (py_getitem ext star_origin) (\<lambda>col.
                         bind_err (set_col m (- 1) col) (\<lambda>m.
                           Inr (map (\<lambda>s. set_minus (py_set s) [star_origin]) (t_simplices T),
                                dim T - 1, Some star_origin, m))))
                 else Inr (map py_set (t_simplices T), dim T, None, m))
                (\<lambda>(simps, d, so, m).
                   bind_err (cone_outer X ext d so simps (m, full_v, []))
                     (\<lambda>(m, full_v, null_vecs). Inr (x_iter_sets X (sort null_vecs))))))"

text \<open>The native branch of \<open>secondary_cone\<close>: the arrays are allocated before
  \<open>is_star()\<close> is first called, which fills its cache.\<close>

definition secondary_cone_native ::
  "externals \<Rightarrow> triangulation \<Rightarrow> py_error + (int list list \<times> triangulation)" where
  "secondary_cone_native X T =
     (if dim T + 1 < 0 then Inl ValueError
      else (case is_star T of (star, T') \<Rightarrow>
              bind_err (native_hyperplanes X T' star) (\<lambda>hyps. Inr (hyps, T'))))"

text \<open>\<open>secondary_cone(include_points_not_in_triangulation=include)\<close> with the default
  back-end choice. The method \<open>neighbor_triangulations(only_fine=False,
  only_regular=False, only_star=False)\<close> is the parameter \<open>neighbors_m\<close>; it is reached
  only on the path that uses differences of GKZ vectors.\<close>

fun gkz_diffs ::
  "externals \<Rightarrow> int list \<Rightarrow> triangulation list \<Rightarrow> py_error + int list list" where
  "gkz_diffs X phi [] = Inr []"
| "gkz_diffs X phi (t # ts) =
     bind_err (gkz_phi X t) (\<lambda>(phi_t, t').
       if length phi_t \<noteq> length phi then Inl ValueError
       else bind_err (gkz_diffs X phi ts)
              (\<lambda>rest. Inr (map2 (\<lambda>a b. wrap64 (a - b)) phi_t phi # rest)))"

definition secondary_cone_with ::
  "(triangulation \<Rightarrow> py_error + (triangulation list \<times> triangulation)) \<Rightarrow> externals
   \<Rightarrow> triangulation \<Rightarrow> bool \<Rightarrow> py_error + (int list list \<times> triangulation)" where
  "secondary_cone_with neighbors_m X T include =
     bind_err (is_fine T) (\<lambda>(fine, T).
       (let native = (fine \<or> \<not> include);
            cached = (if include then snd (t_secondary_cone T) else fst (t_secondary_cone T));
            store = (\<lambda>C T. if include then T\<lparr>t_secondary_cone := (fst (t_secondary_cone T), Some C)\<rparr>
                          else T\<lparr>t_secondary_cone := (Some C, snd (t_secondary_cone T))\<rparr>)
        in case cached of
             Some C \<Rightarrow> Inr (C, T)
           | None \<Rightarrow>
               if native then
                 bind_err (secondary_cone_native X T) (\<lambda>(hyps, T). Inr (hyps, store hyps T))
               else
                 bind_err (gkz_phi X T) (\<lambda>(phi, T).
                 bind_err (neighbors_m T) (\<lambda>(ts, T).
                 bind_err (gkz_diffs X phi ts) (\<lambda>diffs. Inr (diffs, store diffs T))))))"

text \<open>\<open>is_regular()\<close>: it asks for the cone without the points that are not in the
  triangulation, which never takes the GKZ path.\<close>

definition is_regular :: "externals \<Rightarrow> triangulation \<Rightarrow> py_error + (bool \<times> triangulation)" where
  "is_regular X T =
     (case t_is_regular T of
        Some b \<Rightarrow> Inr (b, T)
      | None \<Rightarrow>
          if length (simplices T) = 1 then Inr (True, T\<lparr>t_is_regular := Some True\<rparr>)
          else bind_err (secondary_cone_with (\<lambda>T. Inr ([], T)) X T False)
                 (\<lambda>(C, T). (let b = x_cone_is_solid X C
                             in Inr (b, T\<lparr>t_is_regular := Some b\<rparr>))))"

subsection \<open>Flip neighbours\<close>

text \<open>The three tests, in the order fine, star, regular, that decide whether a candidate
  is kept; a test that is not requested is not evaluated. The result is the candidate (with
  the caches the tests filled) or None.\<close>

definition keep_neighbor ::
  "externals \<Rightarrow> bool \<Rightarrow> bool \<Rightarrow> bool \<Rightarrow> triangulation \<Rightarrow> py_error + triangulation option" where
  "keep_neighbor X only_fine only_regular only_star tri =
     bind_err (if only_fine then is_fine tri else Inr (True, tri)) (\<lambda>(fine, tri).
       if only_fine \<and> \<not> fine then Inr None
       else (case (if only_star then is_star tri else (True, tri)) of (star, tri) \<Rightarrow>
         if only_star \<and> \<not> star then Inr None
         else bind_err (if only_regular then is_regular X tri else Inr (True, tri))
                (\<lambda>(regular, tri). if only_regular \<and> \<not> regular then Inr None
                                  else Inr (Some tri))))"

text \<open>\<open>sum\<close> of rows of the integer array of points: element-wise, starting from
  zero.\<close>

definition vsum :: "nat \<Rightarrow> int list list \<Rightarrow> int list" where
  "vsum n rows = fold (map2 (\<lambda>a b. wrap64 (a + b))) rows (replicate n 0)"

text \<open>\<open>a[i] = row\<close> on a two-dimensional array: the value is broadcast to the width of
  the array.\<close>

definition set_row :: "int list list \<Rightarrow> nat \<Rightarrow> int list \<Rightarrow> py_error + int list list" where
  "set_row a i row =
     (if length a \<le> i then Inl IndexError
      else (let w = length (a ! i) in
            if length row = w then Inr (a[i := row])
            else if length row = 1 then Inr (a[i := replicate w (hd row)])
            else Inl ValueError))"

text \<open>The body of the loops of \<open>_fine_neighbors_2d\<close> for the simplices at positions
  \<open>i < j\<close>.\<close>

definition flip_pair ::
  "externals \<Rightarrow> triangulation \<Rightarrow> bool \<Rightarrow> bool \<Rightarrow> nat \<times> nat \<Rightarrow> py_error + triangulation option" where
  "flip_pair X T only_regular only_star ij =
     (case ij of (i, j) \<Rightarrow>
       (let s1 = py_set (t_simplices T ! i);
            s2 = py_set (t_simplices T ! j);
            inter = set_inter s1 s2
        in if length inter \<noteq> 2 then Inr None
           else (let other = set_minus (set_union s1 s2) inter in
             bind_err (rows_at (t_pts T) (x_iter_ints X inter)) (\<lambda>rows_inter.
             bind_err (rows_at (t_pts T) (x_iter_ints X other)) (\<lambda>rows_other.
               if vsum (t_ambient_dim T) rows_inter \<noteq> vsum (t_ambient_dim T) rows_other
               then Inr None
               else (let flipped = map (\<lambda>p. set_union other [p]) (x_iter_ints X inter) in
                 bind_err (py_getitem flipped 0) (\<lambda>f0.
                 bind_err (set_row (t_simplices T) i f0) (\<lambda>new_simps.
                 bind_err (py_getitem flipped 1) (\<lambda>f1.
                 bind_err (set_row new_simps j f1) (\<lambda>new_simps.
                 bind_err (init_unchecked X (t_poly T) (t_pt_labels T) new_simps)
                   (keep_neighbor X False only_regular only_star)))))))))))"

fun collect_kept :: "('a \<Rightarrow> py_error + triangulation option) \<Rightarrow> 'a list \<Rightarrow> py_error + triangulation list" where
  "collect_kept f [] = Inr []"
| "collect_kept f (x # xs) =
     bind_err (f x) (\<lambda>r. bind_err (collect_kept f xs)
       (\<lambda>rest. Inr (case r of None \<Rightarrow> rest | Some tri \<Rightarrow> tri # rest)))"

text \<open>The index pairs \<open>i < j\<close> in the order of the two nested loops.\<close>

definition index_pairs :: "nat \<Rightarrow> (nat \<times> nat) list" where
  "index_pairs n = concat (map (\<lambda>i. map (\<lambda>j. (i, j)) [Suc i ..< n]) [0 ..< n])"

definition fine_neighbors_2d ::
  "externals \<Rightarrow> triangulation \<Rightarrow> bool \<Rightarrow> bool \<Rightarrow> py_error + triangulation list" where
  "fine_neighbors_2d X T only_regular only_star =
     collect_kept (flip_pair X T only_regular only_star) (index_pairs (length (t_simplices T)))"

text \<open>One line of TOPCOM's answer: skipped unless every simplex has \<open>dim + 1\<close> vertices,
  else built without checks and tested.\<close>

definition parse_neighbor ::
  "externals \<Rightarrow> triangulation \<Rightarrow> bool \<Rightarrow> bool \<Rightarrow> bool \<Rightarrow> simplex list
   \<Rightarrow> py_error + triangulation option" where
  "parse_neighbor X T only_fine only_regular only_star t =
     (if \<not> list_all (\<lambda>s. int (length s) = dim T + 1) t then Inr None
      else bind_err (init_unchecked X (t_poly T) (t_pt_labels T) t)
             (keep_neighbor X only_fine only_regular only_star))"

definition neighbor_triangulations ::
  "externals \<Rightarrow> triangulation \<Rightarrow> bool \<Rightarrow> bool \<Rightarrow> bool
   \<Rightarrow> py_error + (triangulation list \<times> triangulation)" where
  "neighbor_triangulations X T only_fine only_regular only_star =
     (if length (simplices T) = 1 then Inr ([], T)
      else bind_err (is_fine T) (\<lambda>(fine, T).
        if fine \<and> dim T = 2 \<and> only_fine then
          bind_err (fine_neighbors_2d X T False False) (\<lambda>triangs. Inr (triangs, T))
        else (case x_topcom_flips X (pts_ext T) (t_simplices T) of
                Inl e \<Rightarrow> Inl e
              | Inr None \<Rightarrow> Inr ([], T)
              | Inr (Some triangs_list) \<Rightarrow>
                  bind_err (collect_kept (parse_neighbor X T only_fine only_regular only_star)
                              triangs_list)
                    (\<lambda>triangs. Inr (triangs, T)))))"

text \<open>\<open>random_flips(N, only_fine, only_regular, only_star)\<close>. The three flags default to
  None, which counts as false. \<open>np.random.shuffle\<close> is the parameter \<open>shuffle\<close>: the
  permutation it applies at step \<open>k\<close>.\<close>

definition truthy :: "bool option \<Rightarrow> bool" where
  "truthy b = (b = Some True)"

fun first_accepted ::
  "externals \<Rightarrow> bool \<Rightarrow> bool \<Rightarrow> bool \<Rightarrow> triangulation list \<Rightarrow> py_error + triangulation option" where
  "first_accepted X only_fine only_regular only_star [] = Inr None"
| "first_accepted X only_fine only_regular only_star (t # ts) =
     bind_err (keep_neighbor X only_fine only_regular only_star t)
       (\<lambda>r. case r of
               Some t' \<Rightarrow> Inr (Some t')
             | None \<Rightarrow> first_accepted X only_fine only_regular only_star ts)"

fun flips_loop ::
  "externals \<Rightarrow> (nat \<Rightarrow> triangulation list \<Rightarrow> triangulation list) \<Rightarrow> bool \<Rightarrow> bool \<Rightarrow> bool
   \<Rightarrow> nat \<Rightarrow> nat \<Rightarrow> triangulation \<Rightarrow> py_error + triangulation" where
  "flips_loop X shuffle only_fine only_regular only_star k 0 curr_triang = Inr curr_triang"
| "flips_loop X shuffle only_fine only_regular only_star k (Suc n) curr_triang =
     bind_err (neighbor_triangulations X curr_triang False False False) (\<lambda>(neighbors, _).
     bind_err (first_accepted X only_fine only_regular only_star (shuffle k neighbors))
       (\<lambda>r. case r of
               None \<Rightarrow> Inl RuntimeError
             | Some t \<Rightarrow> flips_loop X shuffle only_fine only_regular only_star (Suc k) n t))"

definition random_flips ::
  "externals \<Rightarrow> (nat \<Rightarrow> triangulation list \<Rightarrow> triangulation list) \<Rightarrow> triangulation \<Rightarrow> nat
   \<Rightarrow> bool option \<Rightarrow> bool option \<Rightarrow> bool option \<Rightarrow> py_error + triangulation" where
  "random_flips X shuffle T N only_fine only_regular only_star =
     flips_loop X shuffle (truthy only_fine) (truthy only_regular) (truthy only_star) 0 N T"

subsection \<open>Heights and validity\<close>

definition secondary_cone ::
  "externals \<Rightarrow> triangulation \<Rightarrow> bool \<Rightarrow> py_error + (int list list \<times> triangulation)" where
  "secondary_cone X T include =
     secondary_cone_with (\<lambda>T. neighbor_triangulations X T False False False) X T include"

text \<open>\<open>check_heights()\<close>: the heights are forgotten when some wall of the secondary cone
  is closer than \<open>eps = 1e-6\<close>; the product of the hyperplanes with the heights and the
  comparison are floating-point operations of numpy.\<close>

definition check_heights :: "externals \<Rightarrow> triangulation \<Rightarrow> py_error + triangulation" where
  "check_heights X T =
     bind_err (secondary_cone X T True) (\<lambda>(C, T).
       case t_heights T of
         None \<Rightarrow> Inl TypeError
       | Some hs \<Rightarrow>
           bind_err (x_near_wall X C hs) (\<lambda>not_interior.
             Inr (if not_interior then T\<lparr>t_heights := None\<rparr> else T)))"

text \<open>\<open>heights()\<close> with its default arguments.\<close>

definition heights :: "externals \<Rightarrow> triangulation \<Rightarrow> py_error + (real list \<times> triangulation)" where
  "heights X T =
     (case t_heights T of
        Some hs \<Rightarrow> Inr (hs, T)
      | None \<Rightarrow>
          (let Npts = length (t_pts T) in
           if length (t_simplices T) = 1 \<and> length (hd (t_simplices T)) = Npts then
             Inr (replicate Npts 0, T\<lparr>t_heights := Some (replicate Npts 0)\<rparr>)
           else bind_err (secondary_cone X T True) (\<lambda>(C, T).
                  case x_cone_find_interior_point X C of
                    None \<Rightarrow> Inl AttributeError
                  | Some hs \<Rightarrow> Inr (hs, T\<lparr>t_heights := Some hs\<rparr>))))"

text \<open>The definitional part of \<open>is_valid\<close>. First the volumes: a simplex of volume zero
  ends the check with False.\<close>

fun volume_sum ::
  "externals \<Rightarrow> int list list \<Rightarrow> int \<Rightarrow> simplex list \<Rightarrow> py_error + int option" where
  "volume_sum X ext v [] = Inr (Some v)"
| "volume_sum X ext v (s # ss) =
     bind_err (simp_vol X ext s)
       (\<lambda>tmp_v. if tmp_v = 0 then Inr None else volume_sum X ext (v + tmp_v) ss)"

text \<open>Then the intersections. \<open>pts_ext\<close> is a Python list and the simplices \<open>s1\<close>,
  \<open>s2\<close> are rows of a numpy array: a list accepts an integer or a slice as index, and
  an array with a dimension is neither (\<open>TypeError: only integer scalar arrays can be
  converted to a scalar index\<close>).\<close>

definition list_getitem_ndarray :: "'a list \<Rightarrow> int list \<Rightarrow> py_error + 'a list" where
  "list_getitem_ndarray xs a = Inl TypeError"

fun overlap_inner ::
  "externals \<Rightarrow> int list list \<Rightarrow> simplex \<Rightarrow> simplex list \<Rightarrow> py_error + bool" where
  "overlap_inner X ext s1 [] = Inr False"
| "overlap_inner X ext s1 (s2 # rest) =
     bind_err (list_getitem_ndarray ext s1) (\<lambda>rays1.
     bind_err (list_getitem_ndarray ext s2) (\<lambda>rays2.
       if x_intersection_is_solid X rays1 rays2 then Inr True
       else overlap_inner X ext s1 rest))"

fun overlap_outer :: "externals \<Rightarrow> int list list \<Rightarrow> simplex list \<Rightarrow> py_error + bool" where
  "overlap_outer X ext [] = Inr False"
| "overlap_outer X ext (s1 # rest) =
     bind_err (overlap_inner X ext s1 rest)
       (\<lambda>found. if found then Inr True else overlap_outer X ext rest)"

definition is_valid_definition ::
  "externals \<Rightarrow> triangulation \<Rightarrow> py_error + (bool \<times> triangulation)" where
  "is_valid_definition X T =
     (let simps = simplices T;
          pts = t_pts_optimal T;
          ext = pts_ext T
      in bind_err (volume_sum X ext 0 simps) (\<lambda>r.
           case r of
             None \<Rightarrow> Inr (False, T\<lparr>t_is_valid := Some False\<rparr>)
           | Some v \<Rightarrow>
               bind_err (x_hull_volume_scaled X pts (t_dim T)) (\<lambda>poly_vol.
               if v \<noteq> poly_vol
               then Inr (False, T\<lparr>t_is_valid := Some False\<rparr>)
               else bind_err (overlap_outer X ext simps) (\<lambda>found.
                      if found then Inr (False, T\<lparr>t_is_valid := Some False\<rparr>)
                      else Inr (True, T\<lparr>t_is_valid := Some True\<rparr>)))))"

text \<open>\<open>is_valid()\<close>: the cache, the trivial triangulation, then for a regular
  triangulation the comparison with the triangulation built from its own heights (the
  constructor runs with \<open>make_star=False\<close> and the default back-end, and does not reach
  \<open>is_valid\<close> again), else the definition.\<close>

definition is_valid :: "externals \<Rightarrow> triangulation \<Rightarrow> py_error + (bool \<times> triangulation)" where
  "is_valid X T =
     (case t_is_valid T of
        Some b \<Rightarrow> Inr (b, T)
      | None \<Rightarrow>
          if length (simplices T) = 1 then Inr (True, T\<lparr>t_is_valid := Some True\<rparr>)
          else bind_err (is_regular X T) (\<lambda>(regular, T).
            if regular then
              bind_err (heights X T) (\<lambda>(hs, T).
              bind_err (init_with X (\<lambda>T. Inr (True, T)) (check_heights X) 0 (polytope T)
                          (t_pt_labels T) (Some hs) False None True True (Some ''cgal''))
                (\<lambda>tmp_triang.
                   (let simps1 = sort (map sort (simplices T));
                        simps2 = sort (map sort (simplices tmp_triang));
                        b = (simps1 = simps2)
                    in Inr (b, T\<lparr>t_is_valid := Some b\<rparr>))))
            else is_valid_definition X T))"

text \<open>The constructor with the methods of the class in place.\<close>

definition init ::
  "externals \<Rightarrow> nat \<Rightarrow> polytope \<Rightarrow> int list \<Rightarrow> real list option \<Rightarrow> bool \<Rightarrow> simplex list option
   \<Rightarrow> bool \<Rightarrow> bool \<Rightarrow> string option \<Rightarrow> py_error + triangulation" where
  "init X fuel poly pts heights_in make_star simplices_in check_input_simplices
       check_heights_in backend =
     init_with X (is_valid X) (check_heights X) fuel poly pts heights_in make_star simplices_in
       check_input_simplices check_heights_in backend"

subsection \<open>Toric variety and Stanley-Reisner ideal\<close>

definition get_toric_variety :: "externals \<Rightarrow> triangulation \<Rightarrow> py_error + (nat \<times> triangulation)" where
  "get_toric_variety X T =
     (case t_toricvariety T of
        Some tv \<Rightarrow> Inr (tv, T)
      | None \<Rightarrow>
          if \<not> t_is_fulldim T then Inl NotImplementedError
          else (case is_star T of (star, T) \<Rightarrow>
                  if \<not> star then Inl NotImplementedError
                  else bind_err (x_toric_variety X T)
                         (\<lambda>tv. Inr (tv, T\<lparr>t_toricvariety := Some tv\<rparr>))))"

text \<open>\<open>itertools.combinations(xs, r)\<close>, in its order.\<close>

fun combinations :: "'a list \<Rightarrow> nat \<Rightarrow> 'a list list" where
  "combinations xs 0 = [[]]"
| "combinations [] (Suc r) = []"
| "combinations (x # xs) (Suc r) = map ((#) x) (combinations xs r) @ combinations xs (Suc r)"

text \<open>A frozenset of indices is the sorted duplicate-free list \<open>py_set\<close>; a set of
  frozensets is the sorted duplicate-free list of these, visited in the order
  \<open>x_iter_sets\<close>. \<open>points\<close> is the set of the indices other than the origin's, and
  \<open>simplex_tuples[dd - 1]\<close> holds the subsets of size \<open>dd\<close> of the simplices without the
  origin.\<close>

definition sr_points :: "triangulation \<Rightarrow> int list" where
  "sr_points T = filter (\<lambda>i. i \<noteq> t_origin_index T) (map int [0 ..< length (t_pts T)])"

definition sr_simplices :: "triangulation \<Rightarrow> simplex list" where
  "sr_simplices T = map (filter (\<lambda>i. i \<noteq> t_origin_index T)) (simplices T)"

definition simplex_tuples :: "simplex list \<Rightarrow> int \<Rightarrow> int list list list" where
  "simplex_tuples simps d =
     map (\<lambda>dd. sort (remdups (concat (map (\<lambda>s. map py_set (combinations s (nat dd))) simps))))
       [1 .. d]"

text \<open>The search for a generator below \<open>k\<close>: is some \<open>frozenset(t + (j,))\<close>, for a
  combination \<open>t\<close> of \<open>tup\<close> of an order from 1 to \<open>i\<close>, already in \<open>SR_ideal\<close>?\<close>

definition in_SR_check :: "externals \<Rightarrow> nat \<Rightarrow> int list \<Rightarrow> int \<Rightarrow> int list list \<Rightarrow> bool" where
  "in_SR_check X i tup j SR =
     list_ex (\<lambda>order. list_ex (\<lambda>t. py_set (t @ [j]) \<in> set SR)
                        (combinations (x_iter_ints X tup) order))
       [1 ..< Suc i]"

text \<open>The body of the innermost loop, for one \<open>tup\<close> and one point \<open>j\<close>; the state is
  \<open>(SR_ideal, checked)\<close>, two sets whose order is never used.\<close>

definition sr_visit ::
  "externals \<Rightarrow> int list list \<Rightarrow> nat \<Rightarrow> int list \<Rightarrow> int list list \<times> int list list \<Rightarrow> int
   \<Rightarrow> int list list \<times> int list list" where
  "sr_visit X next_level i tup st j =
     (case st of (SR, checked) \<Rightarrow>
        (let k = py_set (tup @ [j]) in
         if k \<in> set checked \<or> length k \<noteq> length tup + 1 then st
         else if k \<in> set next_level then (SR, k # checked)
         else if in_SR_check X i tup j SR then (SR, k # checked)
         else (k # SR, k # checked)))"

definition sr_level ::
  "externals \<Rightarrow> int list list list \<Rightarrow> int list \<Rightarrow> int list list \<times> int list list \<Rightarrow> nat
   \<Rightarrow> int list list \<times> int list list" where
  "sr_level X levels pts st i =
     foldl (\<lambda>st tup. foldl (sr_visit X (levels ! Suc i) i tup) st (x_iter_ints X pts)) st
       (x_iter_sets X (levels ! i))"

definition sr_loop ::
  "externals \<Rightarrow> int list list list \<Rightarrow> int list \<Rightarrow> int list list \<times> int list list" where
  "sr_loop X levels pts = foldl (sr_level X levels pts) ([], []) [0 ..< length levels - 1]"

definition sr_ideal :: "externals \<Rightarrow> triangulation \<Rightarrow> py_error + (int list list \<times> triangulation)" where
  "sr_ideal X T =
     (case t_sr_ideal T of
        Some r \<Rightarrow> Inr (r, T)
      | None \<Rightarrow>
          (case is_star T of (star, T) \<Rightarrow>
             if \<not> star \<or> \<not> t_is_fulldim T then Inl NotImplementedError
             else (let SR_ideal = fst (sr_loop X (simplex_tuples (sr_simplices T) (dim T))
                                         (sr_points T));
                       r = sort_key (\<lambda>x. (length x, x)) (map sort SR_ideal)
                   in Inr (r, T\<lparr>t_sr_ideal := Some r\<rparr>))))"

subsection \<open>Simplices on faces and the automorphism orbit\<close>

text \<open>\<open>simplices(on_faces_dim=faces_dim)\<close>: the restriction is computed once per
  dimension and kept in \<open>_restricted_simplices\<close>.\<close>

definition restrict_to_faces ::
  "triangulation \<Rightarrow> int \<Rightarrow> point list list \<Rightarrow> int list list list" where
  "restrict_to_faces T faces_dim faces =
     (let full_simp = map py_set (t_simplices T);
          faces_pts = map (filter (\<lambda>pt. pts_dict T pt \<noteq> None)) faces;
          faces_inds = map (\<lambda>pts. py_set (List.map_filter (pts_dict T) pts)) faces_pts
      in map (\<lambda>f. remdups (filter (\<lambda>inters. int (length inters) = faces_dim + 1)
                              (map (set_inter f) full_simp))) faces_inds)"

definition simplices_on_faces ::
  "triangulation \<Rightarrow> int \<Rightarrow> py_error + (simplex list \<times> triangulation)" where
  "simplices_on_faces T faces_dim =
     (if faces_dim < 0 \<or> faces_dim > dim T then Inl ValueError
      else bind_err
        (case map_of (t_restricted_simplices T) faces_dim of
           Some r \<Rightarrow> Inr T
         | None \<Rightarrow>
             bind_err (py_getitem (p_faces_points (t_poly T)) faces_dim) (\<lambda>faces.
               Inr (T\<lparr>t_restricted_simplices :=
                       (faces_dim, restrict_to_faces T faces_dim faces)
                         # t_restricted_simplices T\<rparr>)))
        (\<lambda>T'. case map_of (t_restricted_simplices T') faces_dim of
                 None \<Rightarrow> Inl KeyError
               | Some restricted \<Rightarrow> Inr (sort (map sort (remdups (concat restricted))), T')))"

text \<open>Is the \<open>i\<close>-th automorphism good? The loop over its items breaks when the
  automorphism is not allowed, or when it maps a point of the triangulation to a point
  outside (or the other way round).\<close>

fun auto_good :: "(point \<rightharpoonup> int) \<Rightarrow> point list \<Rightarrow> bool \<Rightarrow> (int \<times> int) list \<Rightarrow> py_error + bool" where
  "auto_good d pts allowed [] = Inr True"
| "auto_good d pts allowed ((j, k) # rest) =
     (if \<not> allowed then Inr False
      else bind_err (py_getitem pts j) (\<lambda>pj. bind_err (py_getitem pts k) (\<lambda>pk.
             if (d pj \<noteq> None) \<noteq> (d pk \<noteq> None) then Inr False
             else auto_good d pts allowed rest)))"

text \<open>The items of a good automorphism, reindexed to the points of the triangulation.\<close>

fun reindex :: "(point \<rightharpoonup> int) \<Rightarrow> point list \<Rightarrow> (int \<times> int) list \<Rightarrow> (int \<rightharpoonup> int)
   \<Rightarrow> py_error + (int \<rightharpoonup> int)" where
  "reindex d pts [] temp = Inr temp"
| "reindex d pts ((j, jj) # rest) temp =
     bind_err (py_getitem pts j) (\<lambda>pj.
       case d pj of
         None \<Rightarrow> reindex d pts rest temp
       | Some a \<Rightarrow> bind_err (py_getitem pts jj) (\<lambda>pjj.
           case d pjj of
             None \<Rightarrow> reindex d pts rest temp
           | Some b \<Rightarrow> reindex d pts rest (temp(a \<mapsto> b))))"

text \<open>Both passes over the automorphisms: a bad one becomes None.\<close>

fun prepare_autos :: "(point \<rightharpoonup> int) \<Rightarrow> point list \<Rightarrow> int list option \<Rightarrow> int
   \<Rightarrow> (int \<times> int) list list \<Rightarrow> py_error + (int \<rightharpoonup> int) option list" where
  "prepare_autos d pts ids i [] = Inr []"
| "prepare_autos d pts ids i (a # rest) =
     bind_err (auto_good d pts (\<not> (ids \<noteq> None \<and> i > 0 \<and> i \<notin> set (case ids of Some l \<Rightarrow> l | None \<Rightarrow> []))) a)
       (\<lambda>good. bind_err (if good then bind_err (reindex d pts a Map.empty) (\<lambda>t. Inr (Some t))
                         else Inr None)
          (\<lambda>a'. bind_err (prepare_autos d pts ids (i + 1) rest) (\<lambda>rest'. Inr (a' # rest'))))"

text \<open>\<open>apply_auto\<close>: the image of the simplices under an automorphism, sorted.\<close>

fun apply_to_simplices :: "(int \<rightharpoonup> int) \<Rightarrow> simplex list \<Rightarrow> py_error + simplex list" where
  "apply_to_simplices auto [] = Inr []"
| "apply_to_simplices auto (s # ss) =
     bind_err (dict_getitems auto s) (\<lambda>s'. bind_err (apply_to_simplices auto ss)
       (\<lambda>rest. Inr (sort s' # rest)))"

definition apply_auto :: "(int \<rightharpoonup> int) \<Rightarrow> simplex list \<Rightarrow> py_error + simplex list" where
  "apply_auto auto simps = bind_err (apply_to_simplices auto simps) (\<lambda>r. Inr (sort r))"

fun first_orbit :: "(int \<rightharpoonup> int) option list \<Rightarrow> simplex list \<Rightarrow> simplex list list
   \<Rightarrow> py_error + simplex list list" where
  "first_orbit [] simps orbit = Inr orbit"
| "first_orbit (a # rest) simps orbit =
     (case a of
        None \<Rightarrow> first_orbit rest simps orbit
      | Some auto \<Rightarrow> bind_err (apply_auto auto simps)
          (\<lambda>t. first_orbit rest simps (if t \<in> set orbit then orbit else orbit @ [t])))"

text \<open>One round of the closing loop: the images, under the requested automorphisms, of
  every triangulation of the orbit, that are not in the orbit. \<open>autos[i]\<close> of a bad
  automorphism is None, which cannot be indexed (TypeError).\<close>

fun images_of :: "(int \<rightharpoonup> int) option list \<Rightarrow> simplex list list \<Rightarrow> simplex list \<Rightarrow> int list
   \<Rightarrow> py_error + simplex list list" where
  "images_of autos orbit simps [] = Inr []"
| "images_of autos orbit simps (i # ids) =
     bind_err (py_getitem autos i) (\<lambda>a.
       case a of
         None \<Rightarrow> Inl TypeError
       | Some auto \<Rightarrow> bind_err (apply_auto auto simps) (\<lambda>new_triang.
           bind_err (images_of autos orbit simps ids)
             (\<lambda>rest. Inr (if new_triang \<notin> set orbit then new_triang # rest else rest))))"

fun new_triangs :: "(int \<rightharpoonup> int) option list \<Rightarrow> simplex list list \<Rightarrow> int list
   \<Rightarrow> simplex list list \<Rightarrow> py_error + simplex list list" where
  "new_triangs autos orbit ids [] = Inr []"
| "new_triangs autos orbit ids (simps # rest) =
     bind_err (images_of autos orbit simps ids) (\<lambda>a.
     bind_err (new_triangs autos orbit ids rest) (\<lambda>b. Inr (a @ b)))"

fun orbit_closure :: "nat \<Rightarrow> externals \<Rightarrow> (int \<rightharpoonup> int) option list \<Rightarrow> int list
   \<Rightarrow> simplex list list \<Rightarrow> py_error + simplex list list" where
  "orbit_closure fuel X autos ids orbit =
     bind_err (new_triangs autos orbit ids (x_iter_triangs X (sort orbit))) (\<lambda>news.
       if news = [] then Inr orbit
       else (case fuel of
               0 \<Rightarrow> Inl OutOfFuel
             | Suc n \<Rightarrow> orbit_closure n X autos ids (orbit @ remdups news)))"

declare orbit_closure.simps [simp del]

text \<open>\<open>automorphism_orbit(automorphism, on_faces_dim, on_faces_codim)\<close>; a single
  automorphism index is the list with that index. The first argument bounds the rounds
  of the closing loop, which visits the set \<open>orbit\<close> in the order \<open>x_iter_triangs\<close>.\<close>

definition automorphism_orbit ::
  "nat \<Rightarrow> externals \<Rightarrow> triangulation \<Rightarrow> int list option \<Rightarrow> int option \<Rightarrow> int option
   \<Rightarrow> py_error + (simplex list list \<times> triangulation)" where
  "automorphism_orbit fuel X T automorphism on_faces_dim on_faces_codim =
     (if \<not> t_is_fulldim T then Inl NotImplementedError
      else (let faces_dim = (case on_faces_dim of
                               Some fd \<Rightarrow> fd
                             | None \<Rightarrow> (case on_faces_codim of
                                          None \<Rightarrow> dim T
                                        | Some cd \<Rightarrow> dim T - cd));
                orbit_id = (automorphism, faces_dim)
            in case map_of (t_automorphism_orbit T) orbit_id of
                 Some orbit \<Rightarrow> Inr (orbit, T)
               | None \<Rightarrow>
                   bind_err (simplices_on_faces T faces_dim) (\<lambda>(simps, T).
                   bind_err (prepare_autos (pts_dict T) (p_points (t_poly T)) automorphism 0
                               (p_automorphisms (t_poly T))) (\<lambda>autos.
                   bind_err (first_orbit autos simps []) (\<lambda>orbit.
                   bind_err (case automorphism of
                               None \<Rightarrow> Inr orbit
                             | Some ids \<Rightarrow> orbit_closure fuel X autos ids orbit) (\<lambda>orbit.
                     Inr (sort orbit,
                          T\<lparr>t_automorphism_orbit :=
                              (orbit_id, sort orbit) # t_automorphism_orbit T\<rparr>)))))))"

subsection \<open>Notions used in the statements\<close>

text \<open>The normalized volume of a simplex whose vertices are indices of points, as numpy
  computes it: the absolute value of the rounded floating-point determinant of the matrix of
  its homogenized vertices (zero when that is not a number).\<close>

definition volume :: "externals \<Rightarrow> triangulation \<Rightarrow> simplex \<Rightarrow> int" where
  "volume X T s =
     (case x_det_rounded X (map (\<lambda>i. pts_ext T ! nat i) s) of Inr d \<Rightarrow> \<bar>d\<bar> | Inl e \<Rightarrow> 0)"

definition total_volume :: "externals \<Rightarrow> triangulation \<Rightarrow> int" where
  "total_volume X T = (\<Sum>s\<leftarrow>t_simplices T. volume X T s)"

text \<open>The determinant of every simplex is a finite number.\<close>

definition dets_finite :: "externals \<Rightarrow> triangulation \<Rightarrow> bool" where
  "dets_finite X T =
     list_all (\<lambda>s. case x_det_rounded X (map (\<lambda>i. pts_ext T ! nat i) s) of
                      Inr d \<Rightarrow> True | Inl e \<Rightarrow> False) (t_simplices T)"

definition indices_ok :: "nat \<Rightarrow> simplex \<Rightarrow> bool" where
  "indices_ok n s = list_all (\<lambda>i. 0 \<le> i \<and> i < int n) s"

text \<open>The data model's invariant: the optimal coordinates have \<open>dim\<close> entries, and every
  simplex has \<open>dim + 1\<close> distinct vertices, each the index of a point.\<close>

definition well_formed :: "triangulation \<Rightarrow> bool" where
  "well_formed T =
     (0 \<le> t_dim T \<and>
      list_all (\<lambda>pt. int (length pt) = t_dim T) (t_pts_optimal T) \<and>
      list_all (\<lambda>s. int (length s) = t_dim T + 1 \<and> distinct s \<and>
                     indices_ok (length (t_pts_optimal T)) s) (t_simplices T))"

text \<open>A cached GKZ vector is one that \<open>gkz_phi\<close> stored.\<close>

definition gkz_cache_ok :: "externals \<Rightarrow> triangulation \<Rightarrow> bool" where
  "gkz_cache_ok X T =
     (case t_gkz_phi T of
        None \<Rightarrow> True
      | Some phi \<Rightarrow> gkz_phi X (T\<lparr>t_gkz_phi := None\<rparr>) = Inr (phi, T))"

text \<open>The part of the object that only the constructor writes, and the two caches that
  only \<open>get_toric_variety\<close> and \<open>sr_ideal\<close> write: every other method leaves them as they
  are.\<close>

definition config_of ::
  "triangulation \<Rightarrow> polytope \<times> int list \<times> point list \<times> point list \<times> nat \<times> int \<times> bool \<times> int
     \<times> nat option \<times> int list list option" where
  "config_of T = (t_poly T, t_pt_labels T, t_pts T, t_pts_optimal T, t_ambient_dim T, t_dim T,
                  t_is_fulldim T, t_origin_index T, t_toricvariety T, t_sr_ideal T)"

text \<open>The guards of \<open>get_toric_variety\<close> and \<open>sr_ideal\<close> stand behind their caches. The
  caches are empty after the constructor, and an answer is only stored behind the guard, for
  a full-dimensional triangulation that \<open>is_star()\<close> calls star.\<close>

definition guard_caches_ok :: "triangulation \<Rightarrow> bool" where
  "guard_caches_ok T =
     ((t_toricvariety T = None \<and> t_sr_ideal T = None) \<or> (t_is_fulldim T \<and> fst (is_star T)))"

text \<open>The points and the dimension of the configuration that the constructor derives from
  the points \<open>sel\<close> that the labels select.\<close>

definition config_points :: "polytope \<Rightarrow> point list \<Rightarrow> point list" where
  "config_points poly sel = filter (\<lambda>pt. pt \<in> set sel) (p_points poly)"

definition config_dim :: "externals \<Rightarrow> point list \<Rightarrow> int" where
  "config_dim X sel = int (x_matrix_rank X (map (\<lambda>pt. pt @ [1]) (remdups sel))) - 1"

text \<open>The back-end names the constructor accepts: it compares the lower-cased name.\<close>

definition valid_backend :: "string \<Rightarrow> bool" where
  "valid_backend b = (lower b \<in> {''qhull'', ''cgal'', ''topcom''})"

text \<open>Simplices whose entries are 64-bit numbers.\<close>

definition int64_entries :: "simplex list \<Rightarrow> bool" where
  "int64_entries ss = list_all (list_all int64_ok) ss"

section \<open>Examples\<close>

text \<open>
  The answers of the external calls on the inputs that occur in the examples. All point
  sets are in the plane, and not on a line when they have three or more points, so the rank
  of the homogenized points is the number of points, at most three. The reduced
  coordinates of the points \<open>(0,0), (1,0)\<close> and of the points \<open>(0,0), (0,1)\<close> are \<open>0\<close> and
  \<open>1\<close>, and the reduction of one point is that point. The matrices of the examples have
  small entries, or powers of two: the floating-point determinant is then within rounding
  of the exact one (\<open>det_n\<close>, the expansion along the first row), so its rounded value is
  the exact determinant. A nullspace vector of a \<open>(d+1) \<times> (d+2)\<close> matrix is the vector
  of its signed maximal minors. A cone with three walls that add up to zero has no
  interior, and the only other cone of the examples is solid. Sets of at most five
  integers between 0 and 7 are visited by CPython in increasing order, and no result of the
  examples depends on the order of a set of tuples. TOPCOM, asked for the flips of the star
  triangulation of the square, answers with the two triangulations that leave out the
  centre. No example reaches the other calls.
\<close>

definition del_col :: "nat \<Rightarrow> int list \<Rightarrow> int list" where
  "del_col j r = take j r @ drop (Suc j) r"

primrec det_n :: "nat \<Rightarrow> int list list \<Rightarrow> int" where
  "det_n 0 M = 1"
| "det_n (Suc n) M =
     (case M of
        [] \<Rightarrow> 0
      | r # rs \<Rightarrow> (\<Sum>j \<leftarrow> [0..<Suc n]. (- 1) ^ j * (r ! j) * det_n n (map (del_col j) rs)))"

definition cofactor_nullspace :: "int list list \<Rightarrow> int list" where
  "cofactor_nullspace m =
     map (\<lambda>j. (- 1) ^ j * det_n (length m) (map (del_col j) m)) [0 ..< length (hd m)]"

definition opposed_walls :: "int list list \<Rightarrow> bool" where
  "opposed_walls C =
     list_ex (\<lambda>a. list_ex (\<lambda>b. list_ex (\<lambda>c.
        map2 (+) (map2 (+) a b) c = replicate (length a) 0) C) C) C"

definition ex_X :: externals where
  "ex_X = \<lparr> x_matrix_rank = (\<lambda>M. min (length M) 3),
      x_det_rounded = (\<lambda>M. Inr (det_n (length M) M)),
      x_lll_reduce = (\<lambda>M. map (\<lambda>r. [0, sum_list r]) M),
      x_random_normal = (\<lambda>k. 0),
      x_convex_hull = (\<lambda>pts. Inl RuntimeError),
      x_cgal = (\<lambda>pts hs. (True, None)),
      x_topcom_finetriang = (\<lambda>pts. None),
      x_topcom_flips = (\<lambda>pts simps.
         if simps = [[0,1,2],[0,1,4],[0,2,3],[0,3,4]]
         then Inr (Some [[[1,2,3],[1,3,4]], [[1,2,4],[2,3,4]]]) else Inr None),
      x_nullspace = cofactor_nullspace,
      x_cone_is_solid = (\<lambda>C. \<not> opposed_walls C),
      x_cone_find_interior_point = (\<lambda>C. None),
      x_intersection_is_solid = (\<lambda>a b. False),
      x_hull_volume_scaled = (\<lambda>pts d. Inr (if length pts = 6 then 16 else 0)),
      x_near_wall = (\<lambda>C hs. Inr False),
      x_toric_variety = (\<lambda>T. Inr 0),
      x_iter_ints = (\<lambda>s. s),
      x_iter_sets = (\<lambda>s. s),
      x_iter_triangs = (\<lambda>s. s) \<rparr>"

text \<open>The triangle with vertices \<open>(0,0), (1,0), (0,1)\<close>, and the triangulations of two of
  its edges by one simplex, as the constructor builds them from the labels \<open>[0,1]\<close> and
  \<open>[0,2]\<close> and the simplices \<open>[[0,1]]\<close>.\<close>

definition ex_poly :: polytope where
  "ex_poly = \<lparr> p_points = [[0,0],[1,0],[0,1]], p_labels = [0,1,2],
      p_dim = 2, p_dim_ambient = 2, p_is_reflexive = False,
      p_facets_boundary_points = [[[0,0],[1,0]],[[1,0],[0,1]],[[0,0],[0,1]]],
      p_faces_points = [[[[0,0]],[[1,0]],[[0,1]]],
                        [[[0,0],[1,0]],[[1,0],[0,1]],[[0,0],[0,1]]],
                        [[[0,0],[1,0],[0,1]]]],
      p_automorphisms = [] \<rparr>"

definition edge_triang :: "int list \<Rightarrow> point list \<Rightarrow> triangulation" where
  "edge_triang labels pts = \<lparr> t_backend = Some ''cgal'', t_pt_labels = labels, t_poly = ex_poly,
     t_simplices = [[0,1]], t_pts = pts, t_ambient_dim = 2, t_dim = 1,
     t_is_fulldim = False, t_pts_optimal = [[0],[1]], t_origin_index = 0,
     t_pts_triang_to_poly = labels, t_heights = None, t_gkz_phi = None, t_hash = None,
     t_is_fine = None, t_is_regular = None, t_is_star = None, t_is_valid = Some True,
     t_secondary_cone = (None, None), t_sr_ideal = None, t_toricvariety = None,
     t_automorphism_orbit = [], t_restricted_simplices = [] \<rparr>"

definition edge_01 :: triangulation where
  "edge_01 = edge_triang [0,1] [[0,0],[1,0]]"

definition edge_02 :: triangulation where
  "edge_02 = edge_triang [0,2] [[0,0],[0,1]]"

text \<open>The square with vertices \<open>(1,0), (0,1), (-1,0), (0,-1)\<close> and the origin inside, and
  its star triangulation, as the constructor builds it from the four simplices without
  checking them.\<close>

definition sq_poly :: polytope where
  "sq_poly = \<lparr> p_points = [[0,0],[1,0],[0,1],[-1,0],[0,-1]], p_labels = [0,1,2,3,4],
      p_dim = 2, p_dim_ambient = 2, p_is_reflexive = True,
      p_facets_boundary_points = [[[1,0],[0,1]],[[0,1],[-1,0]],[[-1,0],[0,-1]],[[0,-1],[1,0]]],
      p_faces_points = [[[[1,0]],[[0,1]],[[-1,0]],[[0,-1]]],
                        [[[1,0],[0,1]],[[0,1],[-1,0]],[[-1,0],[0,-1]],[[0,-1],[1,0]]],
                        [[[0,0],[1,0],[0,1],[-1,0],[0,-1]]]],
      p_automorphisms = [[(0,0),(1,1),(2,2),(3,3),(4,4)],[(0,0),(1,2),(2,3),(3,4),(4,1)]] \<rparr>"

definition sq_star :: triangulation where
  "sq_star = \<lparr> t_backend = Some ''cgal'', t_pt_labels = [0,1,2,3,4], t_poly = sq_poly,
     t_simplices = [[0,1,2],[0,1,4],[0,2,3],[0,3,4]],
     t_pts = [[0,0],[1,0],[0,1],[-1,0],[0,-1]], t_ambient_dim = 2, t_dim = 2,
     t_is_fulldim = True, t_pts_optimal = [[0,0],[1,0],[0,1],[-1,0],[0,-1]],
     t_origin_index = 0, t_pts_triang_to_poly = [0,1,2,3,4], t_heights = None,
     t_gkz_phi = None, t_hash = None, t_is_fine = None, t_is_regular = None,
     t_is_star = None, t_is_valid = None, t_secondary_cone = (None, None),
     t_sr_ideal = None, t_toricvariety = None, t_automorphism_orbit = [],
     t_restricted_simplices = [] \<rparr>"

text \<open>The four boundary points of the square (the labels 1 to 4) with two simplices: a
  configuration without the origin.\<close>

definition sq_boundary :: triangulation where
  "sq_boundary = \<lparr> t_backend = Some ''cgal'', t_pt_labels = [1,2,3,4], t_poly = sq_poly,
     t_simplices = [[0,1,2],[0,2,3]],
     t_pts = [[1,0],[0,1],[-1,0],[0,-1]], t_ambient_dim = 2, t_dim = 2,
     t_is_fulldim = True, t_pts_optimal = [[1,0],[0,1],[-1,0],[0,-1]],
     t_origin_index = - 1, t_pts_triang_to_poly = [1,2,3,4], t_heights = None,
     t_gkz_phi = None, t_hash = None, t_is_fine = None, t_is_regular = None,
     t_is_star = None, t_is_valid = None, t_secondary_cone = (None, None),
     t_sr_ideal = None, t_toricvariety = None, t_automorphism_orbit = [],
     t_restricted_simplices = [] \<rparr>"

text \<open>The triangulation of the single point \<open>(0,0)\<close> of the triangle by the simplex
  \<open>[0]\<close>, as the constructor builds it with its checks on.\<close>

definition one_point :: triangulation where
  "one_point = \<lparr> t_backend = Some ''cgal'', t_pt_labels = [0], t_poly = ex_poly,
     t_simplices = [[0]], t_pts = [[0,0]], t_ambient_dim = 2, t_dim = 0,
     t_is_fulldim = False, t_pts_optimal = [[0,0]], t_origin_index = 0,
     t_pts_triang_to_poly = [0], t_heights = None, t_gkz_phi = None, t_hash = None,
     t_is_fine = None, t_is_regular = None, t_is_star = None, t_is_valid = Some True,
     t_secondary_cone = (None, None), t_sr_ideal = None, t_toricvariety = None,
     t_automorphism_orbit = [], t_restricted_simplices = [] \<rparr>"

text \<open>A triangle with the vertices \<open>(0,0), (2^32,0), (0,2^32)\<close>, and its triangulation by
  one simplex.\<close>

definition big_poly :: polytope where
  "big_poly = \<lparr> p_points = [[0,0],[4294967296,0],[0,4294967296]], p_labels = [0,1,2],
      p_dim = 2, p_dim_ambient = 2, p_is_reflexive = False,
      p_facets_boundary_points = [], p_faces_points = [], p_automorphisms = [] \<rparr>"

definition big_triang :: triangulation where
  "big_triang = \<lparr> t_backend = Some ''cgal'', t_pt_labels = [0,1,2], t_poly = big_poly,
     t_simplices = [[0,1,2]], t_pts = [[0,0],[4294967296,0],[0,4294967296]],
     t_ambient_dim = 2, t_dim = 2, t_is_fulldim = True,
     t_pts_optimal = [[0,0],[4294967296,0],[0,4294967296]], t_origin_index = 0,
     t_pts_triang_to_poly = [0,1,2], t_heights = None, t_gkz_phi = None, t_hash = None,
     t_is_fine = None, t_is_regular = None, t_is_star = None, t_is_valid = Some True,
     t_secondary_cone = (None, None), t_sr_ideal = None, t_toricvariety = None,
     t_automorphism_orbit = [], t_restricted_simplices = [] \<rparr>"

section \<open>Properties\<close>

subsection \<open>The examples are what the constructor builds\<close>

lemma init_edge_01:
  "init ex_X 0 ex_poly [0,1] None False (Some [[0,1]]) True True (Some ''cgal'') = Inr edge_01"
  by code_simp

lemma init_edge_02:
  "init ex_X 0 ex_poly [0,2] None False (Some [[0,1]]) True True (Some ''cgal'') = Inr edge_02"
  by code_simp

lemma init_sq_star:
  "init ex_X 0 sq_poly [0,1,2,3,4] None False (Some [[0,1,2],[0,2,3],[0,3,4],[0,1,4]])
     False True (Some ''cgal'') = Inr sq_star"
  by code_simp

subsection \<open>Indexing\<close>

lemma py_getitem_ok: "0 \<le> i \<Longrightarrow> i < int (length xs) \<Longrightarrow> py_getitem xs i = Inr (xs ! nat i)"
  by (simp add: py_getitem_def)

lemma rows_at_ok:
  "indices_ok (length rows) s \<Longrightarrow> rows_at rows s = Inr (map (\<lambda>i. rows ! nat i) s)"
  by (induction s) (simp_all add: indices_ok_def py_getitem_ok bind_err_def)

subsection \<open>The GKZ vector\<close>

lemma wrap64_id: "int64_ok x \<Longrightarrow> wrap64 x = x"
  by (simp add: int64_ok_def wrap64_def)

lemma phi_add_ok:
  assumes "indices_ok (length phi) s" and "0 \<le> v"
    and "\<forall>k < length phi. 0 \<le> phi ! k \<and> phi ! k + v * int (count_list s (int k)) < 2 ^ 63"
  shows "phi_add phi s v = Inr (map (\<lambda>k. phi ! k + v * int (count_list s (int k))) [0..<length phi])"
  using assms
proof (induction s arbitrary: phi)
  case Nil
  then show ?case by (simp add: map_nth)
next
  case (Cons i s)
  then have i: "0 \<le> i" "i < int (length phi)" and s: "indices_ok (length phi) s"
    by (simp_all add: indices_ok_def)
  let ?phi = "phi[nat i := phi ! nat i + v]"
  from Cons.prems(3) i have bi: "0 \<le> phi ! nat i"
      "phi ! nat i + v * int (count_list (i # s) i) < 2 ^ 63"
    by (auto dest: spec[of _ "nat i"])
  have "v \<le> v * int (count_list (i # s) i)"
    using \<open>0 \<le> v\<close> by (simp add: mult_le_cancel_left1)
  with bi \<open>0 \<le> v\<close> have ok: "int64_ok v" "int64_ok (phi ! nat i + v)"
    by (simp_all add: int64_ok_def)
  have "phi_add phi (i # s) v = phi_add ?phi s v"
    using i ok by (simp add: py_getitem_ok bind_err_def wrap64_id)
  also have "\<dots> = Inr (map (\<lambda>k. ?phi ! k + v * int (count_list s (int k))) [0..<length ?phi])"
  proof (rule Cons.IH)
    show "indices_ok (length ?phi) s" using s by simp
    show "0 \<le> v" by fact
    show "\<forall>k<length ?phi. 0 \<le> ?phi ! k \<and> ?phi ! k + v * int (count_list s (int k)) < 2 ^ 63"
    proof (intro allI impI)
      fix k assume k: "k < length ?phi"
      with Cons.prems(3) have b: "0 \<le> phi ! k"
          "phi ! k + v * int (count_list (i # s) (int k)) < 2 ^ 63" by auto
      show "0 \<le> ?phi ! k \<and> ?phi ! k + v * int (count_list s (int k)) < 2 ^ 63"
      proof (cases "k = nat i")
        case True
        then have "int k = i" using i by simp
        then show ?thesis using b True k \<open>0 \<le> v\<close> by (simp add: algebra_simps)
      next
        case False
        then have "i \<noteq> int k" using i by auto
        then show ?thesis using b False by simp
      qed
    qed
  qed
  also have "map (\<lambda>k. ?phi ! k + v * int (count_list s (int k))) [0..<length ?phi]
           = map (\<lambda>k. phi ! k + v * int (count_list (i # s) (int k))) [0..<length phi]"
    using i by (auto simp: nth_list_update algebra_simps)
  finally show ?case .
qed

lemma sum_list_nonneg_prod:
  assumes "\<And>s. s \<in> set ss \<Longrightarrow> 0 \<le> vol s"
  shows "0 \<le> (\<Sum>s\<leftarrow>ss. vol s * int (c s))"
  using assms by (intro sum_list_nonneg) auto

lemma gkz_loop_ok:
  assumes "list_all (indices_ok (length phi)) ss"
    and "\<And>s. s \<in> set ss \<Longrightarrow> simp_vol X ext s = Inr (vol s)"
    and "\<And>s. s \<in> set ss \<Longrightarrow> 0 \<le> vol s"
    and "\<forall>k < length phi. 0 \<le> phi ! k \<and>
           phi ! k + (\<Sum>s\<leftarrow>ss. vol s * int (count_list s (int k))) < 2 ^ 63"
  shows "gkz_loop X ext phi ss =
         Inr (map (\<lambda>k. phi ! k + (\<Sum>s\<leftarrow>ss. vol s * int (count_list s (int k)))) [0..<length phi])"
  using assms
proof (induction ss arbitrary: phi)
  case Nil
  then show ?case by (simp add: map_nth)
next
  case (Cons s ss)
  let ?phi = "map (\<lambda>k. phi ! k + vol s * int (count_list s (int k))) [0..<length phi]"
  have rest: "0 \<le> (\<Sum>s\<leftarrow>ss. vol s * int (count_list s (int k)))" for k
    by (rule sum_list_nonneg_prod) (simp add: Cons.prems(3))
  have vs: "0 \<le> vol s" by (simp add: Cons.prems(3))
  have add: "phi_add phi s (vol s) = Inr ?phi"
  proof (rule phi_add_ok)
    show "indices_ok (length phi) s" using Cons.prems(1) by simp
    show "0 \<le> vol s" by fact
    show "\<forall>k<length phi. 0 \<le> phi ! k \<and> phi ! k + vol s * int (count_list s (int k)) < 2 ^ 63"
    proof (intro allI impI)
      fix k assume "k < length phi"
      with Cons.prems(4) have "0 \<le> phi ! k"
        "phi ! k + (vol s * int (count_list s (int k))
           + (\<Sum>s\<leftarrow>ss. vol s * int (count_list s (int k)))) < 2 ^ 63"
        by auto
      with rest[of k]
      show "0 \<le> phi ! k \<and> phi ! k + vol s * int (count_list s (int k)) < 2 ^ 63" by linarith
    qed
  qed
  have "gkz_loop X ext phi (s # ss) = gkz_loop X ext ?phi ss"
    using Cons.prems(2)[of s] add by (simp add: bind_err_def)
  also have "\<dots> = Inr (map (\<lambda>k. ?phi ! k + (\<Sum>s\<leftarrow>ss. vol s * int (count_list s (int k)))) [0..<length ?phi])"
  proof (rule Cons.IH)
    show "list_all (indices_ok (length ?phi)) ss" using Cons.prems(1) by simp
    show "\<And>s. s \<in> set ss \<Longrightarrow> simp_vol X ext s = Inr (vol s)" by (simp add: Cons.prems(2))
    show "\<And>s. s \<in> set ss \<Longrightarrow> 0 \<le> vol s" by (simp add: Cons.prems(3))
    show "\<forall>k<length ?phi. 0 \<le> ?phi ! k \<and>
            ?phi ! k + (\<Sum>s\<leftarrow>ss. vol s * int (count_list s (int k))) < 2 ^ 63"
    proof (intro allI impI)
      fix k assume k: "k < length ?phi"
      then have kk: "k < length phi" by simp
      with Cons.prems(4) have b: "0 \<le> phi ! k"
        "phi ! k + (vol s * int (count_list s (int k))
           + (\<Sum>s\<leftarrow>ss. vol s * int (count_list s (int k)))) < 2 ^ 63"
        by auto
      have "0 \<le> vol s * int (count_list s (int k))" using vs by simp
      then show "0 \<le> ?phi ! k \<and>
            ?phi ! k + (\<Sum>s\<leftarrow>ss. vol s * int (count_list s (int k))) < 2 ^ 63"
        using b kk by simp
    qed
  qed
  also have "map (\<lambda>k. ?phi ! k + (\<Sum>s\<leftarrow>ss. vol s * int (count_list s (int k)))) [0..<length ?phi]
           = map (\<lambda>k. phi ! k + (\<Sum>s\<leftarrow>s # ss. vol s * int (count_list s (int k)))) [0..<length phi]"
    by (auto simp: algebra_simps)
  finally show ?case .
qed

lemma count_sum_length:
  "indices_ok n s \<Longrightarrow> (\<Sum>k\<leftarrow>[0..<n]. int (count_list s (int k))) = int (length s)"
proof (induction s)
  case Nil
  then show ?case by simp
next
  case (Cons i s)
  then have i: "0 \<le> i" "i < int n" and s: "indices_ok n s" by (simp_all add: indices_ok_def)
  have one: "(\<Sum>k\<leftarrow>[0..<n]. (if i = int k then 1 else 0 :: int)) = 1"
  proof -
    have eq: "\<And>k. (i = int k) = (k = nat i)" using i by auto
    have "(\<Sum>k\<leftarrow>[0..<n]. (if i = int k then 1 else 0 :: int)) = (\<Sum>k\<in>{0..<n}. (if k = nat i then 1 else 0))"
      by (simp add: interv_sum_list_conv_sum_set_nat eq)
    also have "\<dots> = 1" using i by simp
    finally show ?thesis .
  qed
  have "(\<Sum>k\<leftarrow>[0..<n]. int (count_list (i # s) (int k)))
      = (\<Sum>k\<leftarrow>[0..<n]. int (count_list s (int k)) + (if i = int k then 1 else 0))"
    by (rule arg_cong[where f=sum_list]) auto
  also have "\<dots> = int (length s) + 1"
    using Cons.IH[OF s] one by (simp add: sum_list_addf)
  finally show ?case by simp
qed

lemma count_distinct: "distinct s \<Longrightarrow> int (count_list s x) = (if x \<in> set s then 1 else 0)"
  by (induction s) auto

lemma sum_list_filter_if:
  "(\<Sum>s\<leftarrow>ss. f s * (if P s then 1 else 0 :: int)) = (\<Sum>s\<leftarrow>filter P ss. f s)"
  by (induction ss) auto

lemma sum_list_swap:
  "(\<Sum>k\<leftarrow>ks. (\<Sum>s\<leftarrow>ss. f s k :: int)) = (\<Sum>s\<leftarrow>ss. (\<Sum>k\<leftarrow>ks. f s k))"
  by (induction ss) (simp_all add: sum_list_addf)

lemma volume_nonneg: "0 \<le> volume X T s"
  by (simp add: volume_def split: sum.splits)

lemma simp_vol_ok:
  assumes "indices_ok (length (pts_ext T)) s" and "s \<noteq> []"
    and "\<forall>r \<in> set (pts_ext T). length r = length s"
    and "x_det_rounded X (map (\<lambda>i. pts_ext T ! nat i) s) = Inr d"
  shows "simp_vol X (pts_ext T) s = Inr (volume X T s)"
proof -
  have "\<forall>i \<in> set s. nat i < length (pts_ext T)"
    using assms(1) by (auto simp: indices_ok_def list_all_iff)
  then have "\<forall>r \<in> set (map (\<lambda>i. pts_ext T ! nat i) s). length r = length s"
    using assms(3) by auto
  then show ?thesis
    using assms by (simp add: simp_vol_def rows_at_ok bind_err_def np_linalg_det_def volume_def)
qed

lemma partial_volume_le:
  assumes "\<And>s. s \<in> set ss \<Longrightarrow> distinct s"
  shows "(\<Sum>s\<leftarrow>ss. volume X T s * int (count_list s x)) \<le> (\<Sum>s\<leftarrow>ss. volume X T s)"
proof (rule sum_list_mono)
  fix s assume "s \<in> set ss"
  then have "int (count_list s x) \<le> 1" using assms by (simp add: count_distinct)
  then show "volume X T s * int (count_list s x) \<le> volume X T s"
    using volume_nonneg[of X T s] by (simp add: mult_le_cancel_left2)
qed

lemma gkz_loop_wf:
  assumes "well_formed T" and "dets_finite X T" and "total_volume X T < 2 ^ 63"
  shows "gkz_loop X (pts_ext T) (replicate (length (pts_ext T)) 0) (t_simplices T) =
     Inr (map (\<lambda>k. (\<Sum>s\<leftarrow>t_simplices T. volume X T s * int (count_list s (int k))))
            [0..<length (t_pts_optimal T)])"
proof -
  have len: "length (pts_ext T) = length (t_pts_optimal T)" by (simp add: pts_ext_def)
  have ok: "list_all (indices_ok (length (replicate (length (pts_ext T)) (0::int)))) (t_simplices T)"
    using assms(1) by (simp add: well_formed_def list_all_iff len)
  have vol: "simp_vol X (pts_ext T) s = Inr (volume X T s)" if s: "s \<in> set (t_simplices T)" for s
  proof -
    from s assms(2) obtain d where d: "x_det_rounded X (map (\<lambda>i. pts_ext T ! nat i) s) = Inr d"
      by (cases "x_det_rounded X (map (\<lambda>i. pts_ext T ! nat i) s)")
         (auto simp: dets_finite_def list_all_iff)
    have 1: "indices_ok (length (pts_ext T)) s"
      using s assms(1) by (simp add: well_formed_def list_all_iff len)
    from s have l: "int (length s) = t_dim T + 1"
      using assms(1) by (simp add: well_formed_def list_all_iff)
    then have 2: "s \<noteq> []" using assms(1) by (auto simp: well_formed_def)
    have 3: "\<forall>r \<in> set (pts_ext T). length r = length s"
      using assms(1) l by (auto simp: well_formed_def list_all_iff pts_ext_def)
    show ?thesis by (rule simp_vol_ok[OF 1 2 3 d])
  qed
  have dist: "\<And>s. s \<in> set (t_simplices T) \<Longrightarrow> distinct s"
    using assms(1) by (simp add: well_formed_def list_all_iff)
  have bound: "\<forall>k < length (replicate (length (pts_ext T)) (0::int)).
      0 \<le> replicate (length (pts_ext T)) (0::int) ! k \<and>
      replicate (length (pts_ext T)) (0::int) ! k
        + (\<Sum>s\<leftarrow>t_simplices T. volume X T s * int (count_list s (int k))) < 2 ^ 63"
    using partial_volume_le[OF dist, where X=X and T=T] assms(3)
    by (auto simp: total_volume_def intro: le_less_trans)
  show ?thesis
    using gkz_loop_ok[OF ok vol volume_nonneg bound] by (simp add: len cong: map_cong)
qed

lemma gkz_phi_fresh:
  assumes wf: "well_formed T" and fin: "dets_finite X T" and small: "total_volume X T < 2 ^ 63"
    and cache: "t_gkz_phi T = None"
  shows "\<exists>phi T'. gkz_phi X T = Inr (phi, T') \<and> length phi = length (t_pts_optimal T) \<and>
           (\<forall>i < length phi. phi ! i = (\<Sum>s\<leftarrow>filter (\<lambda>s. int i \<in> set s) (t_simplices T). volume X T s)) \<and>
           sum_list phi = (t_dim T + 1) * total_volume X T"
proof -
  let ?n = "length (t_pts_optimal T)"
  let ?phi = "map (\<lambda>k. (\<Sum>s\<leftarrow>t_simplices T. volume X T s * int (count_list s (int k)))) [0..<?n]"
  have run: "gkz_phi X T = Inr (?phi, T\<lparr>t_gkz_phi := Some ?phi\<rparr>)"
    using cache gkz_loop_wf[OF wf fin small] by (simp add: gkz_phi_def bind_err_def)
  have comp: "\<forall>i < length ?phi. ?phi ! i = (\<Sum>s\<leftarrow>filter (\<lambda>s. int i \<in> set s) (t_simplices T). volume X T s)"
  proof (intro allI impI)
    fix i assume "i < length ?phi"
    then have "?phi ! i = (\<Sum>s\<leftarrow>t_simplices T. volume X T s * int (count_list s (int i)))" by simp
    also have "\<dots> = (\<Sum>s\<leftarrow>t_simplices T. volume X T s * (if int i \<in> set s then 1 else 0))"
      using wf by (intro arg_cong[where f=sum_list] map_cong refl)
        (simp add: well_formed_def list_all_iff count_distinct)
    also have "\<dots> = (\<Sum>s\<leftarrow>filter (\<lambda>s. int i \<in> set s) (t_simplices T). volume X T s)"
      by (rule sum_list_filter_if)
    finally show "?phi ! i = (\<Sum>s\<leftarrow>filter (\<lambda>s. int i \<in> set s) (t_simplices T). volume X T s)" .
  qed
  have "sum_list ?phi = (\<Sum>s\<leftarrow>t_simplices T. (\<Sum>k\<leftarrow>[0..<?n]. volume X T s * int (count_list s (int k))))"
    using sum_list_swap[of "\<lambda>s k. volume X T s * int (count_list s (int k))" "t_simplices T" "[0..<?n]"]
    by (simp add: comp_def)
  also have "\<dots> = (\<Sum>s\<leftarrow>t_simplices T. volume X T s * (t_dim T + 1))"
  proof (intro arg_cong[where f=sum_list] map_cong refl)
    fix s assume s: "s \<in> set (t_simplices T)"
    then have ok: "indices_ok ?n s" and l: "int (length s) = t_dim T + 1"
      using wf by (simp_all add: well_formed_def list_all_iff)
    have "(\<Sum>k\<leftarrow>[0..<?n]. volume X T s * int (count_list s (int k)))
        = volume X T s * (\<Sum>k\<leftarrow>[0..<?n]. int (count_list s (int k)))"
      by (simp add: sum_list_const_mult)
    then show "(\<Sum>k\<leftarrow>[0..<?n]. volume X T s * int (count_list s (int k))) = volume X T s * (t_dim T + 1)"
      using count_sum_length[OF ok] l by simp
  qed
  also have "\<dots> = (t_dim T + 1) * (\<Sum>s\<leftarrow>t_simplices T. volume X T s)"
    by (simp add: sum_list_mult_const mult.commute[of "t_dim T + 1"])
  finally have total: "sum_list ?phi = (t_dim T + 1) * total_volume X T"
    by (simp add: total_volume_def)
  show ?thesis using run comp total by (intro exI[of _ ?phi] exI[of _ "T\<lparr>t_gkz_phi := Some ?phi\<rparr>"]) simp
qed

lemma well_formed_cache [simp]: "well_formed (T\<lparr>t_gkz_phi := c\<rparr>) = well_formed T"
  by (simp add: well_formed_def)

lemma volume_cache [simp]: "volume X (T\<lparr>t_gkz_phi := c\<rparr>) = volume X T"
  by (rule ext) (simp add: volume_def pts_ext_def)

lemma total_volume_cache [simp]: "total_volume X (T\<lparr>t_gkz_phi := c\<rparr>) = total_volume X T"
  by (simp add: total_volume_def)

lemma dets_finite_cache [simp]: "dets_finite X (T\<lparr>t_gkz_phi := c\<rparr>) = dets_finite X T"
  by (simp add: dets_finite_def pts_ext_def)

text \<open>
  Claim C4, as the code has it. Take a triangulation whose optimal coordinates have \<open>dim\<close>
  entries and whose simplices have \<open>dim + 1\<close> distinct vertices, each the index of a
  point; let the volume of a simplex be the one numpy computes, the absolute value of the
  rounded floating-point determinant, and let these volumes be finite and add up to less
  than \<open>2^63\<close>; let the cached GKZ vector, if any, be one that \<open>gkz_phi\<close> stored. Then
  \<open>gkz_phi()\<close> returns a vector with one entry per point; its \<open>i\<close>-th entry is the sum of
  the volumes of the simplices that have the point \<open>i\<close> as a vertex, and its entries add up
  to \<open>dim + 1\<close> times the sum of the volumes of all simplices.
\<close>

theorem gkz_phi_sums:
  assumes wf: "well_formed T" and fin: "dets_finite X T" and small: "total_volume X T < 2 ^ 63"
    and cache: "gkz_cache_ok X T"
  shows "\<exists>phi T'. gkz_phi X T = Inr (phi, T') \<and> length phi = length (t_pts_optimal T) \<and>
           (\<forall>i < length phi. phi ! i = (\<Sum>s\<leftarrow>filter (\<lambda>s. int i \<in> set s) (t_simplices T). volume X T s)) \<and>
           sum_list phi = (t_dim T + 1) * total_volume X T"
proof (cases "t_gkz_phi T")
  case None
  then show ?thesis using gkz_phi_fresh[OF wf fin small] by simp
next
  case (Some phi)
  let ?T0 = "T\<lparr>t_gkz_phi := None\<rparr>"
  from Some cache have run0: "gkz_phi X ?T0 = Inr (phi, T)" by (simp add: gkz_cache_ok_def)
  have "well_formed ?T0" "dets_finite X ?T0" "total_volume X ?T0 < 2 ^ 63" "t_gkz_phi ?T0 = None"
    using wf fin small by simp_all
  from gkz_phi_fresh[OF this] run0
  have props: "length phi = length (t_pts_optimal T) \<and>
           (\<forall>i < length phi. phi ! i = (\<Sum>s\<leftarrow>filter (\<lambda>s. int i \<in> set s) (t_simplices T). volume X T s)) \<and>
           sum_list phi = (t_dim T + 1) * total_volume X T"
    by simp
  have "gkz_phi X T = Inr (phi, T)" using Some by (simp add: gkz_phi_def)
  then show ?thesis using props by blast
qed

lemma gkz_phi_keeps_cache_ok:
  assumes "gkz_cache_ok X T" and "gkz_phi X T = Inr (phi, T')"
  shows "gkz_cache_ok X T'"
proof (cases "t_gkz_phi T")
  case None
  then obtain phi' where l: "gkz_loop X (pts_ext T) (replicate (length (pts_ext T)) 0) (t_simplices T) = Inr phi'"
    and r: "phi = phi'" "T' = T\<lparr>t_gkz_phi := Some phi'\<rparr>"
    using assms(2) by (auto simp: gkz_phi_def bind_err_def split: sum.splits)
  have "T'\<lparr>t_gkz_phi := None\<rparr> = T" using None r by simp
  then show ?thesis using r assms(2) by (simp add: gkz_cache_ok_def)
next
  case (Some a)
  then show ?thesis using assms by (simp add: gkz_phi_def)
qed

theorem gkz_phi_sums_witness:
  "\<exists>T'. gkz_phi ex_X sq_star = Inr ([4, 2, 2, 2, 2], T') \<and>
     (\<forall>i < 5. [4, 2, 2, 2, 2 :: int] ! i
        = (\<Sum>s\<leftarrow>filter (\<lambda>s. int i \<in> set s) (t_simplices sq_star). volume ex_X sq_star s)) \<and>
     sum_list [4, 2, 2, 2, 2 :: int] = (t_dim sq_star + 1) * total_volume ex_X sq_star"
proof -
  have wf: "well_formed sq_star" by code_simp
  have fin: "dets_finite ex_X sq_star" by code_simp
  have small: "total_volume ex_X sq_star < 2 ^ 63" by code_simp
  have c: "gkz_cache_ok ex_X sq_star" by code_simp
  have run: "gkz_phi ex_X sq_star = Inr ([4, 2, 2, 2, 2], sq_star\<lparr>t_gkz_phi := Some [4, 2, 2, 2, 2]\<rparr>)"
    by code_simp
  from gkz_phi_sums[OF wf fin small c] run show ?thesis by auto
qed

text \<open>
  Claim C4 as stated, for every triangulation, fails in two ways. The triangulation of one
  point of the triangle is built by the constructor with its checks on; its dimension is 0,
  the slice \<open>[:, -0:]\<close> keeps both coordinates, the matrix of the only simplex is not
  square, and \<open>gkz_phi()\<close> raises. The triangle with vertices \<open>(0,0), (2^32,0), (0,2^32)\<close>
  has the normalized volume \<open>2^64\<close>, which is no entry of an integer array, and
  \<open>gkz_phi()\<close> raises again.
\<close>

theorem gkz_phi_raises:
  "init ex_X 0 ex_poly [0] None False (Some [[0]]) True True (Some ''cgal'') = Inr one_point
   \<and> gkz_phi ex_X one_point = Inl ValueError
   \<and> init ex_X 0 big_poly [0,1,2] None False (Some [[0,1,2]]) True True (Some ''cgal'')
       = Inr big_triang
   \<and> volume ex_X big_triang [0,1,2] = 2 ^ 64
   \<and> gkz_phi ex_X big_triang = Inl OverflowError"
  by code_simp

subsection \<open>Star triangulations\<close>

lemma all_contain_Index: "all_contain (Index i) ss = Inr (list_all (\<lambda>s. i \<in> set s) ss)"
  by (induction ss) auto

lemma is_star_at_iff: "is_star_at T i \<longleftrightarrow> (\<forall>s \<in> set (t_simplices T). i \<in> set s)"
  by (simp add: is_star_at_def list_all_iff)

lemma is_star_fresh:
  assumes "t_is_star T = None" and "0 < dim T"
  shows "fst (is_star T) =
           (case pts_dict T (zeros (dim T)) of
              None \<Rightarrow> False
            | Some i \<Rightarrow> is_star_at T i)"
  using assms
  by (simp add: is_star_def points_to_indices_def zeros_def dict_getitem_def bind_err_def
        all_contain_Index is_star_at_def Let_def split: option.splits)

lemma is_star_cached: "t_is_star T = Some b \<Longrightarrow> is_star T = (b, T)"
  by (simp add: is_star_def)

text \<open>
  Claim C6. With the origin given, \<open>is_star\<close> is True exactly when every simplex contains
  it (\<open>is_star_at_iff\<close>), and without an argument it looks up the point \<open>[0]*self.dim()\<close>
  (\<open>is_star_fresh\<close>). That point is the zero vector only for a full-dimensional
  configuration. The triangulation of the edge from \<open>(0,0)\<close> to \<open>(1,0)\<close> of the triangle is
  not full-dimensional: its point 0 is the zero vector, the constructor records 0 as the
  index of the origin, the only simplex contains it, and \<open>is_star()\<close> is False.
\<close>

theorem is_star_misses_origin:
  "init ex_X 0 ex_poly [0,1] None False (Some [[0,1]]) True True (Some ''cgal'') = Inr edge_01
   \<and> t_is_fulldim edge_01 = False
   \<and> t_pts edge_01 ! 0 = [0, 0]
   \<and> t_origin_index edge_01 = 0
   \<and> is_star_at edge_01 0
   \<and> fst (is_star edge_01) = False"
  by code_simp

subsection \<open>Equality and hash\<close>

lemma dunder_eq_iff:
  "dunder_eq a b \<longleftrightarrow> polytope a = polytope b \<and> sort (simplices a) = sort (simplices b)"
  by (simp add: dunder_eq_def Let_def)

lemma dunder_ne_iff: "dunder_ne a b \<longleftrightarrow> \<not> dunder_eq a b"
  by (simp add: dunder_ne_def)

lemma dunder_hash_fresh:
  "t_hash T = None \<Longrightarrow>
   fst (dunder_hash h T) =
     h (PyTuple (PyInt (h (hash_points_key T)) # map tuple_of (sort (map sort (simplices T)))))"
  by (simp add: dunder_hash_def Let_def)

lemma hash_differs_when_injective:
  assumes "inj h"
  shows "fst (dunder_hash h edge_01) \<noteq> fst (dunder_hash h edge_02)"
proof
  assume eq: "fst (dunder_hash h edge_01) = fst (dunder_hash h edge_02)"
  have n1: "t_hash edge_01 = None" and n2: "t_hash edge_02 = None" by code_simp+
  from eq have "h (hash_points_key edge_01) = h (hash_points_key edge_02)"
    using assms by (simp add: dunder_hash_fresh[OF n1] dunder_hash_fresh[OF n2] inj_eq)
  then have "hash_points_key edge_01 = hash_points_key edge_02" using assms by (simp add: inj_eq)
  moreover have "hash_points_key edge_01 \<noteq> hash_points_key edge_02" by code_simp
  ultimately show False by simp
qed

text \<open>
  Claim C3. \<open>==\<close> compares the polytopes and the sorted simplices (\<open>dunder_eq_iff\<close>) and
  \<open>!=\<close> is its negation (\<open>dunder_ne_iff\<close>), but \<open>__hash__\<close> hashes the points of the
  triangulation, not the polytope. The triangulations of two different edges of the
  triangle have the same polytope and the same simplices \<open>[[0,1]]\<close>, so they are equal,
  and the point tuples that \<open>__hash__\<close> hashes differ; the hashes then differ for every
  hash function that has no collision (\<open>hash_differs_when_injective\<close>).
\<close>

theorem equal_triangulations_hash_different_points:
  "init ex_X 0 ex_poly [0,1] None False (Some [[0,1]]) True True (Some ''cgal'') = Inr edge_01
   \<and> init ex_X 0 ex_poly [0,2] None False (Some [[0,1]]) True True (Some ''cgal'') = Inr edge_02
   \<and> dunder_eq edge_01 edge_02
   \<and> dunder_ne edge_01 edge_02 = False
   \<and> t_hash edge_01 = None \<and> t_hash edge_02 = None
   \<and> hash_points_key edge_01 \<noteq> hash_points_key edge_02"
  by code_simp

subsection \<open>Methods leave the configuration alone\<close>

lemma bind_err_Inr_iff:
  "bind_err m f = Inr y \<longleftrightarrow> (\<exists>x. m = Inr x \<and> f x = Inr y)"
  by (cases m) (simp_all add: bind_err_def)

lemma is_fine_config: "is_fine T = Inr (b, T') \<Longrightarrow> config_of T' = config_of T"
  by (auto simp: is_fine_def config_of_def Let_def split: option.splits if_splits)

lemma is_fine_simplices: "is_fine T = Inr (b, T') \<Longrightarrow> t_simplices T' = t_simplices T"
  by (auto simp: is_fine_def Let_def split: option.splits if_splits)

lemma is_star_config: "is_star T = (b, T') \<Longrightarrow> config_of T' = config_of T"
  by (auto simp: is_star_def config_of_def Let_def split: option.splits)

lemma gkz_phi_config: "gkz_phi X T = Inr (phi, T') \<Longrightarrow> config_of T' = config_of T"
  by (auto simp: gkz_phi_def config_of_def bind_err_Inr_iff split: option.splits)

lemma secondary_cone_native_config:
  "secondary_cone_native X T = Inr (C, T') \<Longrightarrow> config_of T' = config_of T"
  by (auto simp: secondary_cone_native_def bind_err_Inr_iff
        split: if_splits prod.splits dest: is_star_config)

lemma secondary_cone_with_config:
  assumes nb: "\<And>T ts T'. neighbors_m T = Inr (ts, T') \<Longrightarrow> config_of T' = config_of T"
    and run: "secondary_cone_with neighbors_m X T inc = Inr (C, T')"
  shows "config_of T' = config_of T"
proof -
  have upd: "\<And>T c. config_of (T\<lparr>t_secondary_cone := c\<rparr>) = config_of T"
    by (simp add: config_of_def)
  from run obtain fine T1 where f: "is_fine T = Inr (fine, T1)"
    by (auto simp: secondary_cone_with_def bind_err_Inr_iff)
  note c1 = is_fine_config[OF f]
  from run f show ?thesis
    using c1 upd
    by (auto simp: secondary_cone_with_def bind_err_Inr_iff Let_def
          split: option.splits if_splits
          dest!: secondary_cone_native_config gkz_phi_config nb)
qed

lemma secondary_cone_plain_config:
  "secondary_cone_with (\<lambda>T. Inr ([], T)) X T inc = Inr (C, T') \<Longrightarrow> config_of T' = config_of T"
  by (rule secondary_cone_with_config[where neighbors_m = "\<lambda>T. Inr ([], T)"]) auto

lemma is_regular_config: "is_regular X T = Inr (b, T') \<Longrightarrow> config_of T' = config_of T"
proof -
  assume run: "is_regular X T = Inr (b, T')"
  have upd: "\<And>T c. config_of (T\<lparr>t_is_regular := c\<rparr>) = config_of T"
    by (simp add: config_of_def)
  from run show ?thesis
    using upd
    by (auto simp: is_regular_def bind_err_Inr_iff Let_def split: option.splits if_splits
         dest!: secondary_cone_plain_config)
qed

lemma neighbor_triangulations_config:
  "neighbor_triangulations X T a b c = Inr (ts, T') \<Longrightarrow> config_of T' = config_of T"
  by (auto simp: neighbor_triangulations_def bind_err_Inr_iff
        split: if_splits sum.splits option.splits dest: is_fine_config)

lemma secondary_cone_config:
  "secondary_cone X T inc = Inr (C, T') \<Longrightarrow> config_of T' = config_of T"
  unfolding secondary_cone_def
  by (rule secondary_cone_with_config[rotated]) (auto dest: neighbor_triangulations_config)

lemma check_heights_config: "check_heights X T = Inr T' \<Longrightarrow> config_of T' = config_of T"
proof -
  have upd: "\<And>T c. config_of (T\<lparr>t_heights := c\<rparr>) = config_of T"
    by (simp add: config_of_def)
  assume "check_heights X T = Inr T'"
  then show ?thesis using upd
    by (auto simp: check_heights_def bind_err_Inr_iff
          split: option.splits if_splits dest!: secondary_cone_config)
qed

lemma heights_config: "heights X T = Inr (hs, T') \<Longrightarrow> config_of T' = config_of T"
proof -
  have upd: "\<And>T c. config_of (T\<lparr>t_heights := c\<rparr>) = config_of T"
    by (simp add: config_of_def)
  assume "heights X T = Inr (hs, T')"
  then show ?thesis using upd
    by (auto simp: heights_def bind_err_Inr_iff Let_def
          split: option.splits if_splits dest!: secondary_cone_config)
qed

lemma is_valid_definition_config:
  "is_valid_definition X T = Inr (b, T') \<Longrightarrow> config_of T' = config_of T"
  by (auto simp: is_valid_definition_def bind_err_Inr_iff Let_def config_of_def
        split: option.splits if_splits)

lemma is_valid_config: "is_valid X T = Inr (b, T') \<Longrightarrow> config_of T' = config_of T"
proof -
  have upd: "\<And>T c. config_of (T\<lparr>t_is_valid := c\<rparr>) = config_of T"
    by (simp add: config_of_def)
  assume "is_valid X T = Inr (b, T')"
  then show ?thesis using upd
    by (auto simp: is_valid_def bind_err_Inr_iff Let_def
          split: option.splits if_splits
          dest!: is_regular_config heights_config is_valid_definition_config)
qed

subsection \<open>The constructor\<close>

lemma py_list_index_absent: "x \<notin> set xs \<Longrightarrow> py_list_index xs x = Inl ValueError"
  by (induction xs) auto

lemma py_list_index_present:
  "x \<in> set xs \<Longrightarrow> \<exists>i. py_list_index xs x = Inr i \<and> 0 \<le> i \<and> i < int (length xs)"
  by (induction xs) auto

lemma points_which_subset: "points_which poly ls = Inr sel \<Longrightarrow> set sel \<subseteq> set (p_points poly)"
proof (induction ls arbitrary: sel)
  case Nil
  then show ?case by simp
next
  case (Cons l ls)
  then show ?case
    by (auto simp: bind_err_Inr_iff py_getitem_def split: if_splits)
qed

lemma poly_points_to_indices_total:
  "set xs \<subseteq> set (p_points poly) \<Longrightarrow> \<exists>r. poly_points_to_indices poly xs = Inr r"
proof (induction xs)
  case Nil
  then show ?case by simp
next
  case (Cons x xs)
  then obtain r where r: "poly_points_to_indices poly xs = Inr r" by auto
  from Cons.prems obtain i where "py_list_index (p_points poly) x = Inr i"
    using py_list_index_present[of x "p_points poly"] by auto
  then show ?case using r by (simp add: bind_err_def)
qed

text \<open>What the section that parses the points returns.\<close>

lemma init_parse_points_total:
  assumes "set tmp_pts \<subseteq> set (p_points poly)" and "tmp_pts \<noteq> []"
  shows "\<exists>T0 ms. init_parse_points X poly pts backend tmp_pts make_star = Inr (T0, ms)
           \<and> t_pts T0 = filter (\<lambda>pt. pt \<in> set tmp_pts) (p_points poly)
           \<and> t_dim T0 = int (x_matrix_rank X (map (\<lambda>pt. pt @ [1]) tmp_pts)) - 1
           \<and> t_is_valid T0 = None"
proof -
  let ?the = "filter (\<lambda>pt. pt \<in> set tmp_pts) (p_points poly)"
  have ne: "?the \<noteq> []"
  proof -
    from assms(2) obtain x where "x \<in> set tmp_pts" by (cases tmp_pts) auto
    then have "x \<in> set ?the" using assms(1) by auto
    then show ?thesis by (metis empty_iff list.set(1))
  qed
  obtain r where r: "poly_points_to_indices poly ?the = Inr r"
    using poly_points_to_indices_total[of ?the poly] by auto
  show ?thesis
    using ne r
    by (auto simp: init_parse_points_def Let_def bind_err_def
          split: list.splits sum.splits prod.splits)
qed

lemma init_parse_points_no_origin:
  assumes "replicate (p_dim poly) 0 \<notin> set tmp_pts"
  shows "init_parse_points X poly pts backend tmp_pts True
           = init_parse_points X poly pts backend tmp_pts False"
    and "init_parse_points X poly pts backend tmp_pts ms = Inr (T0, ms') \<Longrightarrow>
           t_origin_index T0 = - 1 \<and> ms' = False"
proof -
  have "replicate (p_dim poly) 0 \<notin> set (filter (\<lambda>pt. pt \<in> set tmp_pts) (p_points poly))"
    using assms by auto
  then have idx: "py_list_index (filter (\<lambda>pt. pt \<in> set tmp_pts) (p_points poly))
                    (replicate (p_dim poly) 0) = Inl ValueError"
    by (rule py_list_index_absent)
  show "init_parse_points X poly pts backend tmp_pts True
           = init_parse_points X poly pts backend tmp_pts False"
    by (simp add: init_parse_points_def Let_def idx)
  show "init_parse_points X poly pts backend tmp_pts ms = Inr (T0, ms') \<Longrightarrow>
           t_origin_index T0 = - 1 \<and> ms' = False"
    by (auto simp: init_parse_points_def Let_def idx bind_err_Inr_iff split: if_splits)
qed

lemma to_star_config: "to_star T = Inr T' \<Longrightarrow> config_of T' = config_of T"
proof (cases "t_simplices T")
  case Nil
  then show "to_star T = Inr T' \<Longrightarrow> config_of T' = config_of T"
    by (auto simp: to_star_def bind_err_Inr_iff split: if_splits)
next
  case (Cons s0 rest)
  then show "to_star T = Inr T' \<Longrightarrow> config_of T' = config_of T"
    by (auto simp: to_star_def bind_err_Inr_iff Let_def config_of_def split: if_splits)
qed

lemma init_from_simplices_config:
  assumes "init_from_simplices (is_valid X) T0 ss ms chk = Inr T"
  shows "config_of T = config_of T0"
proof -
  have upd: "config_of (T0\<lparr>t_simplices := ss, t_heights := None\<rparr>) = config_of T0"
    by (simp add: config_of_def)
  from assms show ?thesis
    using upd
    by (auto simp: init_from_simplices_def bind_err_Inr_iff Let_def
          split: if_splits dest!: to_star_config is_valid_config)
qed

lemma init_run_backend_config:
  assumes "init_run_backend X fuel T backend ms = Inr T'"
  shows "config_of T' = config_of T"
proof -
  have upd: "\<And>T a. config_of (T\<lparr>t_simplices := a\<rparr>) = config_of T"
    "\<And>T a b. config_of (T\<lparr>t_heights := a, t_simplices := b\<rparr>) = config_of T"
    by (simp_all add: config_of_def)
  consider "backend = ''qhull''" | "backend \<noteq> ''qhull''" "backend = ''cgal''"
    | "backend \<noteq> ''qhull''" "backend \<noteq> ''cgal''" by blast
  then show ?thesis
  proof cases
    case 1
    with assms show ?thesis using upd
      by (auto simp: init_run_backend_def bind_err_Inr_iff split: option.splits if_splits
            dest!: to_star_config)
  next
    case 2
    with assms show ?thesis using upd
      by (auto simp: init_run_backend_def bind_err_Inr_iff split: option.splits if_splits)
  next
    case 3
    with assms show ?thesis using upd
      by (auto simp: init_run_backend_def bind_err_Inr_iff split: if_splits
            dest!: to_star_config)
  qed
qed

lemma init_from_heights_config:
  assumes "init_from_heights X (check_heights X) fuel T0 backend pts hs ms ch = Inr T"
  shows "config_of T = config_of T0"
proof -
  let ?T = "T0\<lparr>t_is_regular := (if backend = ''qhull'' then None else Some True),
                t_is_valid := Some True\<rparr>"
  from assms obtain h T2 where
    b: "init_run_backend X fuel (?T\<lparr>t_heights := h\<rparr>) backend ms = Inr T2"
    and f: "(if ch \<and> t_heights T2 \<noteq> None then check_heights X T2 else Inr T2) = Inr T"
    by (auto simp: init_from_heights_def Let_def bind_err_Inr_iff)
  have "config_of T2 = config_of (?T\<lparr>t_heights := h\<rparr>)"
    by (rule init_run_backend_config[OF b])
  also have "\<dots> = config_of T0" by (simp add: config_of_def)
  finally have c2: "config_of T2 = config_of T0" .
  from f show ?thesis using c2 by (auto split: if_splits dest!: check_heights_config)
qed

lemma init_grab_inputs_points:
  assumes "init_grab_inputs poly pts simps backend = Inr (be, tmp_pts, ss)"
    and "points_which poly pts = Inr sel"
  shows "tmp_pts = remdups sel \<and> tmp_pts \<noteq> []"
  using assms
  by (auto simp: init_grab_inputs_def Let_def bind_err_Inr_iff split: option.splits if_splits)

lemma nonzero_points_no_origin:
  assumes "list_all (list_ex (\<lambda>c. c \<noteq> (0::int))) sel"
  shows "replicate n 0 \<notin> set (remdups sel)"
proof
  assume "replicate n 0 \<in> set (remdups sel)"
  then have "list_ex (\<lambda>c. c \<noteq> 0) (replicate n (0::int))"
    using assms by (auto simp: list_all_iff)
  then show False by (simp add: list_ex_iff)
qed

text \<open>
  Claim C10. When no point that the labels select is the zero vector, the constructor
  called with \<open>make_star=True\<close> does exactly what it does with \<open>make_star=False\<close> (the
  same triangulation or the same exception, with no star-ification), and the triangulation
  it returns has the origin index \<open>-1\<close>.
\<close>

theorem make_star_without_origin:
  assumes sel: "points_which poly pts = Inr sel"
    and nz: "list_all (list_ex (\<lambda>c. c \<noteq> 0)) sel"
  shows "init X fuel poly pts hs True simps chk ch backend
           = init X fuel poly pts hs False simps chk ch backend
         \<and> (\<forall>T. init X fuel poly pts hs True simps chk ch backend = Inr T
                \<longrightarrow> t_origin_index T = - 1)"
proof (cases "init_grab_inputs poly pts simps backend")
  case (Inl e)
  then show ?thesis by (simp add: init_def init_with_def bind_err_def)
next
  case (Inr g)
  obtain be tmp_pts ss where g: "g = (be, tmp_pts, ss)" by (cases g) auto
  from Inr g sel have tmp: "tmp_pts = remdups sel"
    using init_grab_inputs_points by blast
  have no: "replicate (p_dim poly) 0 \<notin> set tmp_pts"
    unfolding tmp by (rule nonzero_points_no_origin[OF nz])
  note pp = init_parse_points_no_origin[OF no, of X pts be]
  have same: "init X fuel poly pts hs True simps chk ch backend
           = init X fuel poly pts hs False simps chk ch backend"
    using Inr g pp(1) by (simp add: init_def init_with_def bind_err_def)
  have origin: "t_origin_index T = - 1"
    if run: "init X fuel poly pts hs True simps chk ch backend = Inr T" for T
  proof -
    from run Inr g obtain T0 ms T1 where
      p: "init_parse_points X poly pts be tmp_pts True = Inr (T0, ms)"
      and b: "(case ss of
                 Some ss' \<Rightarrow> init_from_simplices (is_valid X) T0 ss' ms chk
               | None \<Rightarrow> init_from_heights X (check_heights X) fuel T0 be pts hs ms ch) = Inr T1"
      and f: "\<exists>ss'. T = T1\<lparr>t_simplices := ss'\<rparr>"
      by (auto simp: init_def init_with_def bind_err_Inr_iff)
    from pp(2)[OF p] have o: "t_origin_index T0 = - 1" by simp
    from b have "config_of T1 = config_of T0"
      by (cases ss) (auto dest: init_from_simplices_config init_from_heights_config)
    then have "t_origin_index T1 = t_origin_index T0" by (simp add: config_of_def)
    then show ?thesis using f o by auto
  qed
  show ?thesis using same origin by blast
qed

theorem make_star_without_origin_witness:
  "points_which sq_poly [1,2,3,4] = Inr [[1,0],[0,1],[-1,0],[0,-1]]
   \<and> init ex_X 0 sq_poly [1,2,3,4] None True (Some [[0,1,2],[0,2,3]]) False True (Some ''cgal'')
       = Inr sq_boundary
   \<and> init ex_X 0 sq_poly [1,2,3,4] None False (Some [[0,1,2],[0,2,3]]) False True (Some ''cgal'')
       = Inr sq_boundary
   \<and> t_origin_index sq_boundary = - 1"
proof -
  have sel: "points_which sq_poly [1,2,3,4] = Inr [[1,0],[0,1],[-1,0],[0,-1]]" by code_simp
  have nz: "list_all (list_ex (\<lambda>c. c \<noteq> 0)) [[1,0],[0,1],[-1,0],[0,-1::int]]" by code_simp
  have run: "init ex_X 0 sq_poly [1,2,3,4] None True (Some [[0,1,2],[0,2,3]]) False True
               (Some ''cgal'') = Inr sq_boundary" by code_simp
  from make_star_without_origin[OF sel nz, of ex_X 0 None "Some [[0,1,2],[0,2,3]]" False True
         "Some ''cgal''"] run sel
  show ?thesis by simp
qed

lemma init_invalid_backend:
  assumes "\<not> valid_backend b"
  shows "init X fuel poly pts hs ms simps chk ch (Some b) = Inl ValueError"
  using assms
  by (simp add: init_def init_with_def init_grab_inputs_def bind_err_def Let_def valid_backend_def)

lemma init_no_points:
  assumes "valid_backend b" and "points_which poly pts = Inr []"
  shows "init X fuel poly pts hs ms simps chk ch (Some b) = Inl ValueError"
  using assms
  by (simp add: init_def init_with_def init_grab_inputs_def bind_err_def Let_def valid_backend_def)

lemma remdups_empty_iff: "remdups xs = [] \<longleftrightarrow> xs = []"
  by (metis set_empty set_remdups)

lemma init_grab_inputs_cases:
  assumes "valid_backend b" and "points_which poly pts = Inr sel" and "sel \<noteq> []"
  shows "init_grab_inputs poly pts simps (Some b) =
           (case simps of
              None \<Rightarrow> Inr (lower b, remdups sel, None)
            | Some ss \<Rightarrow> bind_err (asarray_int ss)
                           (\<lambda>ss'. Inr (lower b, remdups sel, Some ss')))"
proof -
  have vb: "lower b \<in> {''qhull'', ''cgal'', ''topcom''}" using assms(1) by (simp add: valid_backend_def)
  show ?thesis
    using assms(2,3)
    by (cases simps)
       (simp_all add: init_grab_inputs_def vb bind_err_def Let_def
          remdups_empty_iff del: insert_iff)
qed

lemma parse_points_result:
  assumes "points_which poly pts = Inr sel" and "sel \<noteq> []"
  shows "\<exists>T0 ms'. init_parse_points X poly pts be (remdups sel) ms = Inr (T0, ms')
           \<and> t_pts T0 = config_points poly sel \<and> t_dim T0 = config_dim X sel"
proof -
  have sub: "set (remdups sel) \<subseteq> set (p_points poly)"
    using points_which_subset[OF assms(1)] by simp
  have ne: "remdups sel \<noteq> []" using assms(2) by (simp add: remdups_empty_iff)
  from init_parse_points_total[OF sub ne, of X pts be ms]
  show ?thesis by (auto simp: config_points_def config_dim_def)
qed

lemma init_overflow:
  "init ex_X 0 ex_poly [0,1] None False (Some [[0, 2 ^ 63]]) True True (Some ''cgal'')
     = Inl OverflowError"
  by code_simp

lemma init_wrong_heights:
  assumes "valid_backend b" and "points_which poly pts = Inr sel" and "sel \<noteq> []"
    and "length h \<noteq> length pts"
  shows "init X fuel poly pts (Some h) ms None chk ch (Some b) = Inl ValueError"
proof -
  obtain T0 ms' where p: "init_parse_points X poly pts (lower b) (remdups sel) ms = Inr (T0, ms')"
    using parse_points_result[OF assms(2,3)] by blast
  show ?thesis
    using assms(4) p
    by (simp add: init_def init_with_def init_grab_inputs_cases[OF assms(1-3)] bind_err_def
          init_from_heights_def init_heights_def Let_def)
qed

lemma sorted_rows_set: "set (concat (sort (map sort ss))) = set (concat (ss :: int list list))"
  by auto

lemma init_from_simplices_value_error:
  assumes ne: "ss \<noteq> []" and nr: "\<not> ragged (sort (map sort ss))"
    and bad: "(\<exists>s \<in> set ss. int (length s) \<noteq> t_dim T0 + 1) \<or>
              (chk \<and> (\<exists>i \<in> set (concat ss). i < 0 \<or> int (length (t_pts T0)) \<le> i))"
  shows "init_from_simplices is_valid_m T0 (sort (map sort ss)) ms chk = Inl ValueError"
proof -
  let ?ss = "sort (map sort ss)"
  have ne': "?ss \<noteq> []" using ne by (metis length_0_conv length_map length_sort)
  show ?thesis
  proof (cases "int (length (hd ?ss)) \<noteq> t_dim T0 + 1")
    case True
    then show ?thesis using ne' by (simp add: init_from_simplices_def Let_def)
  next
    case False
    have all: "\<forall>s \<in> set ss. length s = length (hd ?ss)"
    proof
      fix s assume "s \<in> set ss"
      then have "sort s \<in> set ?ss" by simp
      then have "length (sort s) = length (hd ?ss)" using nr unfolding ragged_def by blast
      then show "length s = length (hd ?ss)" by simp
    qed
    with False bad have chk: chk
      and ex: "\<exists>i \<in> set (concat ss). i < 0 \<or> int (length (t_pts T0)) \<le> i" by auto
    from ex obtain i where i: "i \<in> set (concat ?ss)" "i < 0 \<or> int (length (t_pts T0)) \<le> i"
      unfolding sorted_rows_set by blast
    then have nonempty: "concat ?ss \<noteq> []" by (metis empty_iff list.set(1))
    have fin: "finite (set (concat ?ss))" by simp
    have "Min (set (concat ?ss)) < 0 \<or> int (length (t_pts T0)) \<le> Max (set (concat ?ss))"
    proof (cases "i < 0")
      case True
      have "Min (set (concat ?ss)) \<le> i" using i(1) fin by (rule_tac Min_le)
      with True show ?thesis by linarith
    next
      case False
      have "i \<le> Max (set (concat ?ss))" using i(1) fin by (rule_tac Max_ge)
      with False i(2) show ?thesis by linarith
    qed
    then show ?thesis
      using False ne' chk nonempty
      by (auto simp: init_from_simplices_def Let_def points_def bind_err_def)
  qed
qed

lemma asarray_int_ok:
  assumes "int64_entries ss"
  shows "asarray_int ss =
           (if ragged (sort (map sort ss)) then Inl ValueError else Inr (sort (map sort ss)))"
proof -
  have "\<not> list_ex (list_ex (\<lambda>x. \<not> int64_ok x)) (sort (map sort ss))"
    using assms by (auto simp: int64_entries_def list_all_iff list_ex_iff)
  then show ?thesis by (simp add: asarray_int_def sorted_simplices_def bind_err_def Let_def)
qed

lemma init_bad_simplices:
  assumes vb: "valid_backend b" and sel: "points_which poly pts = Inr sel" and ne: "sel \<noteq> []"
    and ss: "ss \<noteq> []" and i64: "int64_entries ss"
    and bad: "(\<exists>s \<in> set ss. int (length s) \<noteq> config_dim X sel + 1) \<or>
              (chk \<and> (\<exists>i \<in> set (concat ss). i < 0 \<or> int (length (config_points poly sel)) \<le> i))"
  shows "init X fuel poly pts hs ms (Some ss) chk ch (Some b) = Inl ValueError"
proof (cases "ragged (sort (map sort ss))")
  case True
  then show ?thesis
    by (simp add: init_def init_with_def init_grab_inputs_cases[OF vb sel ne] bind_err_def
          asarray_int_ok[OF i64])
next
  case False
  obtain T0 ms' where p: "init_parse_points X poly pts (lower b) (remdups sel) ms = Inr (T0, ms')"
    and t: "t_pts T0 = config_points poly sel" "t_dim T0 = config_dim X sel"
    using parse_points_result[OF sel ne] by blast
  have "init_from_simplices (is_valid X) T0 (sort (map sort ss)) ms' chk = Inl ValueError"
    by (rule init_from_simplices_value_error[OF ss False]) (use bad t in simp)
  then show ?thesis
    using False p
    by (simp add: init_def init_with_def init_grab_inputs_cases[OF vb sel ne] bind_err_def
          asarray_int_ok[OF i64])
qed

text \<open>
  Claim C7, as the constructor has it. The constructor raises ValueError, and returns no
  triangulation: when the lower-cased back-end name is none of qhull, cgal, topcom; when
  the labels select no point; when simplices with 64-bit entries are given (at least one)
  and one of them does not have \<open>dim + 1\<close> vertices; when simplices with 64-bit entries
  are given, \<open>check_input_simplices\<close> is set and an index is negative or not below the
  number of points; and when no simplices are given and the number of the given heights is
  not the number of labels. (An entry that is no 64-bit number stops the conversion of the
  simplices to an array with OverflowError, before either check.)
\<close>

theorem init_value_errors:
  "(\<not> valid_backend b \<longrightarrow>
       init X fuel poly pts hs ms simps chk ch (Some b) = Inl ValueError) \<and>
   (valid_backend b \<and> points_which poly pts = Inr [] \<longrightarrow>
       init X fuel poly pts hs ms simps chk ch (Some b) = Inl ValueError) \<and>
   (valid_backend b \<and> points_which poly pts = Inr sel \<and> sel \<noteq> [] \<and> ss \<noteq> [] \<and>
    int64_entries ss \<and> (\<exists>s \<in> set ss. int (length s) \<noteq> config_dim X sel + 1) \<longrightarrow>
       init X fuel poly pts hs ms (Some ss) chk ch (Some b) = Inl ValueError) \<and>
   (valid_backend b \<and> points_which poly pts = Inr sel \<and> sel \<noteq> [] \<and> ss \<noteq> [] \<and>
    int64_entries ss \<and>
    (\<exists>i \<in> set (concat ss). i < 0 \<or> int (length (config_points poly sel)) \<le> i) \<longrightarrow>
       init X fuel poly pts hs ms (Some ss) True ch (Some b) = Inl ValueError) \<and>
   (valid_backend b \<and> points_which poly pts = Inr sel \<and> sel \<noteq> [] \<and> length h \<noteq> length pts \<longrightarrow>
       init X fuel poly pts (Some h) ms None chk ch (Some b) = Inl ValueError)"
proof (intro conjI impI)
  assume "\<not> valid_backend b"
  then show "init X fuel poly pts hs ms simps chk ch (Some b) = Inl ValueError"
    by (rule init_invalid_backend)
next
  assume "valid_backend b \<and> points_which poly pts = Inr []"
  then show "init X fuel poly pts hs ms simps chk ch (Some b) = Inl ValueError"
    by (simp add: init_no_points)
next
  assume a: "valid_backend b \<and> points_which poly pts = Inr sel \<and> sel \<noteq> [] \<and> ss \<noteq> [] \<and>
    int64_entries ss \<and> (\<exists>s \<in> set ss. int (length s) \<noteq> config_dim X sel + 1)"
  show "init X fuel poly pts hs ms (Some ss) chk ch (Some b) = Inl ValueError"
    by (rule init_bad_simplices[of b poly pts sel]) (use a in simp_all)
next
  assume a: "valid_backend b \<and> points_which poly pts = Inr sel \<and> sel \<noteq> [] \<and> ss \<noteq> [] \<and>
    int64_entries ss \<and>
    (\<exists>i \<in> set (concat ss). i < 0 \<or> int (length (config_points poly sel)) \<le> i)"
  show "init X fuel poly pts hs ms (Some ss) True ch (Some b) = Inl ValueError"
    by (rule init_bad_simplices[of b poly pts sel]) (use a in simp_all)
next
  assume a: "valid_backend b \<and> points_which poly pts = Inr sel \<and> sel \<noteq> [] \<and> length h \<noteq> length pts"
  show "init X fuel poly pts (Some h) ms None chk ch (Some b) = Inl ValueError"
    by (rule init_wrong_heights[of b poly pts sel]) (use a in simp_all)
qed

theorem init_value_errors_witness:
  "init ex_X 0 ex_poly [0,1] None False None True True (Some ''delaunay'') = Inl ValueError
   \<and> init ex_X 0 ex_poly [] None False None True True (Some ''cgal'') = Inl ValueError
   \<and> init ex_X 0 ex_poly [0,1] None False (Some [[0,1,2]]) False True (Some ''cgal'') = Inl ValueError
   \<and> init ex_X 0 ex_poly [0,1] None False (Some [[0,5]]) True True (Some ''cgal'') = Inl ValueError
   \<and> init ex_X 0 ex_poly [0,1] (Some [1,2,3]) False None True True (Some ''cgal'') = Inl ValueError"
proof -
  have nb: "\<not> valid_backend ''delaunay''" and vb: "valid_backend ''cgal''" by code_simp+
  have none: "points_which ex_poly [] = Inr []" by code_simp
  have sel: "points_which ex_poly [0,1] = Inr [[0,0],[1,0]]" by code_simp
  have d: "config_dim ex_X [[0,0],[1,0]] = 1" by code_simp
  have n: "config_points ex_poly [[0,0],[1,0]] = [[0,0],[1,0]]" by code_simp
  have e3: "int64_entries [[0,1,2]]" and e4: "int64_entries [[0,5]]" by code_simp+
  have 1: "init ex_X 0 ex_poly [0,1] None False None True True (Some ''delaunay'') = Inl ValueError"
    using init_value_errors[of "''delaunay''" ex_X 0 ex_poly "[0,1]" None False None True True]
      nb by simp
  have 2: "init ex_X 0 ex_poly [] None False None True True (Some ''cgal'') = Inl ValueError"
    using init_value_errors[of "''cgal''" ex_X 0 ex_poly "[]" None False None True True]
      vb none by simp
  have 3: "init ex_X 0 ex_poly [0,1] None False (Some [[0,1,2]]) False True (Some ''cgal'') = Inl ValueError"
    using init_value_errors[of "''cgal''" ex_X 0 ex_poly "[0,1]" None False None False True
            "[[0,0],[1,0]]" "[[0,1,2]]"] vb sel d e3 by simp
  have 4: "init ex_X 0 ex_poly [0,1] None False (Some [[0,5]]) True True (Some ''cgal'') = Inl ValueError"
    using init_value_errors[of "''cgal''" ex_X 0 ex_poly "[0,1]" None False None True True
            "[[0,0],[1,0]]" "[[0,5]]"] vb sel n e4 by simp
  have 5: "init ex_X 0 ex_poly [0,1] (Some [1,2,3]) False None True True (Some ''cgal'') = Inl ValueError"
    using init_value_errors[of "''cgal''" ex_X 0 ex_poly "[0,1]" None False None True True
            "[[0,0],[1,0]]" "[]" "[1,2,3]"] vb sel by simp
  from 1 2 3 4 5 show ?thesis by simp
qed

text \<open>
  Claim C7 as stated fails: an index out of range is not refused when
  \<open>check_input_simplices\<close> is off, heights of the wrong length are ignored when simplices
  are given, and the name \<open>CGAL\<close> is accepted. And an index that is no 64-bit number is
  refused with OverflowError, which is no ValueError (\<open>init_overflow\<close>).
\<close>

theorem init_accepts_unchecked_input:
  "init ex_X 0 ex_poly [0,1] None False (Some [[0,5]]) False True (Some ''cgal'')
     = Inr (edge_01\<lparr>t_simplices := [[0,5]], t_is_valid := None\<rparr>)
   \<and> init ex_X 0 ex_poly [0,1] (Some [1,2,3]) False (Some [[0,1]]) True True (Some ''CGAL'')
     = Inr edge_01"
  by code_simp

subsection \<open>The guards of the toric variety, the Stanley-Reisner ideal and the orbit\<close>

lemma bind_err_Inl_iff:
  "bind_err m f = Inl e \<longleftrightarrow> m = Inl e \<or> (\<exists>x. m = Inr x \<and> f x = Inl e)"
  by (cases m) (simp_all add: bind_err_def)

lemma is_star_idem: "is_star T = (b, T') \<Longrightarrow> is_star T' = (b, T')"
  by (auto simp: is_star_def Let_def split: option.splits)

lemma is_star_fulldim: "is_star T = (b, T') \<Longrightarrow> t_is_fulldim T' = t_is_fulldim T"
  by (auto simp: is_star_def Let_def split: option.splits)

lemma get_toric_variety_guard:
  assumes "guard_caches_ok T"
  shows "(\<not> (t_is_fulldim T \<and> fst (is_star T)) \<longrightarrow>
            get_toric_variety X T = Inl NotImplementedError) \<and>
         (t_is_fulldim T \<and> fst (is_star T) \<and>
          x_toric_variety X (snd (is_star T)) \<noteq> Inl NotImplementedError \<longrightarrow>
            get_toric_variety X T \<noteq> Inl NotImplementedError)"
  using assms
  by (cases "is_star T")
     (auto simp: guard_caches_ok_def get_toric_variety_def bind_err_Inl_iff split: option.splits)

lemma sr_ideal_guard:
  assumes "guard_caches_ok T"
  shows "(\<not> (t_is_fulldim T \<and> fst (is_star T)) \<longrightarrow> sr_ideal X T = Inl NotImplementedError) \<and>
         (t_is_fulldim T \<and> fst (is_star T) \<longrightarrow> (\<exists>r T'. sr_ideal X T = Inr (r, T')))"
  using assms
  by (cases "is_star T")
     (auto simp: guard_caches_ok_def sr_ideal_def Let_def is_star_fulldim split: option.splits)

text \<open>The two methods keep the caches behind the guards, and the constructor leaves them
  empty.\<close>

lemma is_star_toric_upd: "fst (is_star (T\<lparr>t_toricvariety := c\<rparr>)) = fst (is_star T)"
  by (cases "t_is_star T")
     (simp_all add: is_star_def points_to_indices_def pts_dict_def dim_def Let_def)

lemma is_star_sr_upd: "fst (is_star (T\<lparr>t_sr_ideal := c\<rparr>)) = fst (is_star T)"
  by (cases "t_is_star T")
     (simp_all add: is_star_def points_to_indices_def pts_dict_def dim_def Let_def)

lemma get_toric_variety_keeps_guard:
  assumes "guard_caches_ok T" and "get_toric_variety X T = Inr (tv, T')"
  shows "guard_caches_ok T'"
proof (cases "t_toricvariety T")
  case (Some a)
  then show ?thesis using assms by (simp add: get_toric_variety_def)
next
  case None
  obtain b T1 where s: "is_star T = (b, T1)" by (cases "is_star T")
  from assms(2) None s have b and f: "t_is_fulldim T"
    and T': "T' = T1\<lparr>t_toricvariety := Some tv\<rparr>"
    by (auto simp: get_toric_variety_def bind_err_Inr_iff split: if_splits)
  have "is_star T1 = (b, T1)" by (rule is_star_idem[OF s])
  then have "fst (is_star T') = b"
    unfolding T' by (simp add: is_star_toric_upd)
  moreover have "t_is_fulldim T'" using f is_star_fulldim[OF s] T' by simp
  ultimately show ?thesis using \<open>b\<close> by (simp add: guard_caches_ok_def)
qed

lemma sr_ideal_keeps_guard:
  assumes "guard_caches_ok T" and "sr_ideal X T = Inr (r, T')"
  shows "guard_caches_ok T'"
proof (cases "t_sr_ideal T")
  case (Some a)
  then show ?thesis using assms by (simp add: sr_ideal_def)
next
  case None
  obtain b T1 where s: "is_star T = (b, T1)" by (cases "is_star T")
  from assms(2) None s have b and f: "t_is_fulldim T1"
    and T': "T' = T1\<lparr>t_sr_ideal := Some r\<rparr>"
    by (auto simp: sr_ideal_def Let_def split: if_splits)
  have "is_star T1 = (b, T1)" by (rule is_star_idem[OF s])
  then have "fst (is_star T') = b"
    unfolding T' by (simp add: is_star_sr_upd)
  moreover have "t_is_fulldim T'" using f T' by simp
  ultimately show ?thesis using \<open>b\<close> by (simp add: guard_caches_ok_def)
qed

lemma init_parse_points_caches:
  assumes "init_parse_points X poly pts be tmp ms = Inr (T0, ms')"
  shows "t_toricvariety T0 = None \<and> t_sr_ideal T0 = None"
  using assms
  by (auto simp: init_parse_points_def Let_def bind_err_Inr_iff split: if_splits sum.splits)

lemma init_guard_caches_ok:
  assumes run: "init X fuel poly pts hs ms simps chk ch backend = Inr T"
  shows "guard_caches_ok T"
proof -
  from run obtain be tmp ss T0 ms' T1 ss1 where
    p: "init_parse_points X poly pts be tmp ms = Inr (T0, ms')"
    and b: "(case ss of
               None \<Rightarrow> init_from_heights X (check_heights X) fuel T0 be pts hs ms' ch
             | Some ss' \<Rightarrow> init_from_simplices (is_valid X) T0 ss' ms' chk) = Inr T1"
    and f: "T = T1\<lparr>t_simplices := ss1\<rparr>"
    by (auto simp: init_def init_with_def bind_err_Inr_iff)
  from b have "config_of T1 = config_of T0"
    by (cases ss) (auto dest: init_from_simplices_config init_from_heights_config)
  then have "t_toricvariety T1 = None \<and> t_sr_ideal T1 = None"
    using init_parse_points_caches[OF p] by (simp add: config_of_def)
  then show ?thesis using f by (auto simp: guard_caches_ok_def)
qed

text \<open>After its guard, \<open>automorphism_orbit\<close> raises no NotImplementedError.\<close>

lemma py_getitem_no_nie: "py_getitem xs i \<noteq> Inl NotImplementedError"
  by (simp add: py_getitem_def)

lemma dict_getitem_no_nie: "dict_getitem m k \<noteq> Inl NotImplementedError"
  by (simp add: dict_getitem_def split: option.splits)

lemma dict_getitems_no_nie: "dict_getitems m ks \<noteq> Inl NotImplementedError"
  by (induction ks) (auto simp: bind_err_Inl_iff dict_getitem_no_nie)

lemma simplices_on_faces_no_nie: "simplices_on_faces T d \<noteq> Inl NotImplementedError"
  by (auto simp: simplices_on_faces_def bind_err_Inl_iff py_getitem_no_nie
        split: option.splits)

lemma auto_good_no_nie: "auto_good d pts allowed a \<noteq> Inl NotImplementedError"
  by (induction d pts allowed a rule: auto_good.induct)
     (auto simp: bind_err_Inl_iff py_getitem_no_nie)

lemma reindex_no_nie: "reindex d pts a temp \<noteq> Inl NotImplementedError"
proof (induction a arbitrary: temp)
  case Nil
  show ?case by simp
next
  case (Cons jk rest)
  obtain j jj where jk: "jk = (j, jj)" by (cases jk)
  show ?case
    unfolding jk
    by (auto simp: bind_err_Inl_iff py_getitem_no_nie Cons simp del: fun_upd_apply
          split: option.splits)
qed

lemma prepare_autos_no_nie: "prepare_autos d pts ids i as \<noteq> Inl NotImplementedError"
  by (induction d pts ids i as rule: prepare_autos.induct)
     (auto simp: bind_err_Inl_iff auto_good_no_nie reindex_no_nie)

lemma apply_to_simplices_no_nie: "apply_to_simplices a ss \<noteq> Inl NotImplementedError"
  by (induction ss) (auto simp: bind_err_Inl_iff dict_getitems_no_nie)

lemma apply_auto_no_nie: "apply_auto a ss \<noteq> Inl NotImplementedError"
  by (auto simp: apply_auto_def bind_err_Inl_iff apply_to_simplices_no_nie)

lemma first_orbit_no_nie: "first_orbit as simps orbit \<noteq> Inl NotImplementedError"
  by (induction as simps orbit rule: first_orbit.induct)
     (auto simp: bind_err_Inl_iff apply_auto_no_nie split: option.splits)

lemma images_of_no_nie: "images_of autos orbit simps ids \<noteq> Inl NotImplementedError"
  by (induction ids)
     (auto simp: bind_err_Inl_iff apply_auto_no_nie py_getitem_no_nie split: option.splits)

lemma new_triangs_no_nie: "new_triangs autos orbit ids todo \<noteq> Inl NotImplementedError"
  by (induction todo) (auto simp: bind_err_Inl_iff images_of_no_nie)

lemma orbit_closure_no_nie: "orbit_closure fuel X autos ids orbit \<noteq> Inl NotImplementedError"
proof (induction fuel arbitrary: orbit)
  case 0
  show ?case
    by (subst orbit_closure.simps) (auto simp: bind_err_Inl_iff new_triangs_no_nie)
next
  case (Suc n)
  show ?case
    by (subst orbit_closure.simps) (auto simp: bind_err_Inl_iff new_triangs_no_nie Suc)
qed

lemma automorphism_orbit_guard:
  "(\<not> t_is_fulldim T \<longrightarrow> automorphism_orbit fuel X T a fd cd = Inl NotImplementedError) \<and>
   (t_is_fulldim T \<longrightarrow> automorphism_orbit fuel X T a fd cd \<noteq> Inl NotImplementedError)"
proof (intro conjI impI)
  assume "\<not> t_is_fulldim T"
  then show "automorphism_orbit fuel X T a fd cd = Inl NotImplementedError"
    by (simp add: automorphism_orbit_def)
next
  assume f: "t_is_fulldim T"
  show "automorphism_orbit fuel X T a fd cd \<noteq> Inl NotImplementedError"
  proof
    assume "automorphism_orbit fuel X T a fd cd = Inl NotImplementedError"
    then show False
      using f
      by (auto simp: automorphism_orbit_def Let_def bind_err_Inl_iff
            simplices_on_faces_no_nie prepare_autos_no_nie first_orbit_no_nie
            orbit_closure_no_nie
            split: option.splits)
  qed
qed

text \<open>
  Claim C9. Let the caches of the toric variety and of the Stanley-Reisner ideal be empty,
  as the constructor leaves them (\<open>init_guard_caches_ok\<close>), or filled behind the guards
  (\<open>get_toric_variety_keeps_guard\<close>, \<open>sr_ideal_keeps_guard\<close>). When the configuration is
  not full-dimensional or \<open>is_star()\<close> is False, \<open>get_toric_variety\<close> and \<open>sr_ideal\<close>
  raise NotImplementedError; when the configuration is not full-dimensional,
  \<open>automorphism_orbit\<close> raises NotImplementedError. In the complementary cases \<open>sr_ideal\<close>
  returns, \<open>get_toric_variety\<close> raises no NotImplementedError unless the constructor of
  the toric variety does, and \<open>automorphism_orbit\<close> raises no NotImplementedError.
\<close>

theorem not_implemented_guards:
  assumes "guard_caches_ok T"
  shows "(\<not> (t_is_fulldim T \<and> fst (is_star T)) \<longrightarrow>
            get_toric_variety X T = Inl NotImplementedError \<and>
            sr_ideal X T = Inl NotImplementedError) \<and>
         (\<not> t_is_fulldim T \<longrightarrow>
            automorphism_orbit fuel X T a fd cd = Inl NotImplementedError) \<and>
         (t_is_fulldim T \<and> fst (is_star T) \<longrightarrow>
            (\<exists>r T'. sr_ideal X T = Inr (r, T')) \<and>
            (x_toric_variety X (snd (is_star T)) \<noteq> Inl NotImplementedError \<longrightarrow>
               get_toric_variety X T \<noteq> Inl NotImplementedError)) \<and>
         (t_is_fulldim T \<longrightarrow>
            automorphism_orbit fuel X T a fd cd \<noteq> Inl NotImplementedError)"
  using get_toric_variety_guard[OF assms, of X] sr_ideal_guard[OF assms, of X]
    automorphism_orbit_guard[of T fuel X a fd cd]
  by blast

theorem not_implemented_guards_witness:
  "get_toric_variety ex_X edge_01 = Inl NotImplementedError
   \<and> sr_ideal ex_X edge_01 = Inl NotImplementedError
   \<and> automorphism_orbit 5 ex_X edge_01 None None None = Inl NotImplementedError
   \<and> get_toric_variety ex_X sq_boundary = Inl NotImplementedError
   \<and> sr_ideal ex_X sq_boundary = Inl NotImplementedError
   \<and> (\<exists>r T'. sr_ideal ex_X sq_star = Inr (r, T'))
   \<and> get_toric_variety ex_X sq_star \<noteq> Inl NotImplementedError
   \<and> automorphism_orbit 5 ex_X sq_star None None None \<noteq> Inl NotImplementedError"
proof -
  have g: "guard_caches_ok edge_01" "guard_caches_ok sq_boundary" "guard_caches_ok sq_star"
    by code_simp+
  have e: "\<not> t_is_fulldim edge_01" by code_simp
  have b: "\<not> fst (is_star sq_boundary)" by code_simp
  have s: "t_is_fulldim sq_star" "fst (is_star sq_star)" by code_simp+
  have tv: "x_toric_variety ex_X (snd (is_star sq_star)) \<noteq> Inl NotImplementedError"
    by (simp add: ex_X_def)
  from not_implemented_guards[OF g(1), of ex_X 5 None None None] e
    not_implemented_guards[OF g(2), of ex_X 5 None None None] b
    not_implemented_guards[OF g(3), of ex_X 5 None None None] s tv
  show ?thesis by simp
qed

end
